theory Spec2Isabelle
  imports Complex_Main
begin

section \<open>The portrait server (main.go) as HOL functions\<close>

text \<open>
  The program is one Go file: an HTTP handler that validates five query parameters and a
  builder that composites image files and text onto a 200 by 200 canvas. Go's \<open>int\<close> is
  modelled as \<open>int\<close>: the only arithmetic is on image sizes, text widths and the
  constants of the layout, far from the 64-bit bounds, and \<open>strconv.Atoi\<close> below refuses
  what does not fit 64 bits. Go's \<open>/\<close> on integers truncates towards zero, which differs
  from HOL's \<open>div\<close>; it is \<open>quo\<close> here, and the program only ever divides by the
  literal 2.
\<close>

subsection \<open>Integers\<close>

definition quo :: "int \<Rightarrow> int \<Rightarrow> int" where
  "quo a b = (if (a < 0) = (b < 0) then \<bar>a\<bar> div \<bar>b\<bar> else - (\<bar>a\<bar> div \<bar>b\<bar>))"

subsection \<open>Package image: points and rectangles\<close>

datatype Point = Pt (X: int) (Y: int)

datatype Rectangle = Rectangle (Min_p: Point) (Max_p: Point)

definition Pt_Add :: "Point \<Rightarrow> Point \<Rightarrow> Point" where
  "Pt_Add p q = Pt (X p + X q) (Y p + Y q)"

definition Pt_Sub :: "Point \<Rightarrow> Point \<Rightarrow> Point" where
  "Pt_Sub p q = Pt (X p - X q) (Y p - Y q)"

definition Pt_Div :: "Point \<Rightarrow> int \<Rightarrow> Point" where
  "Pt_Div p k = Pt (quo (X p) k) (quo (Y p) k)"

definition Rect_Size :: "Rectangle \<Rightarrow> Point" where
  "Rect_Size r = Pt (X (Max_p r) - X (Min_p r)) (Y (Max_p r) - Y (Min_p r))"

definition Rect_Add :: "Rectangle \<Rightarrow> Point \<Rightarrow> Rectangle" where
  "Rect_Add r p = Rectangle (Pt_Add (Min_p r) p) (Pt_Add (Max_p r) p)"

definition Rect_Empty :: "Rectangle \<Rightarrow> bool" where
  "Rect_Empty r \<longleftrightarrow> X (Min_p r) \<ge> X (Max_p r) \<or> Y (Min_p r) \<ge> Y (Max_p r)"

definition Pt_In :: "Point \<Rightarrow> Rectangle \<Rightarrow> bool" where
  "Pt_In p r \<longleftrightarrow> X (Min_p r) \<le> X p \<and> X p < X (Max_p r) \<and> Y (Min_p r) \<le> Y p \<and> Y p < Y (Max_p r)"

definition ZR :: Rectangle where
  "ZR = Rectangle (Pt 0 0) (Pt 0 0)"

definition Intersect :: "Rectangle \<Rightarrow> Rectangle \<Rightarrow> Rectangle" where
  "Intersect r s =
     (let r' = Rectangle
                 (Pt (max (X (Min_p r)) (X (Min_p s))) (max (Y (Min_p r)) (Y (Min_p s))))
                 (Pt (min (X (Max_p r)) (X (Max_p s))) (min (Y (Max_p r)) (Y (Max_p s))))
      in if Rect_Empty r' then ZR else r')"

subsection \<open>Colours and images\<close>

text \<open>
  A colour is what \<open>Color.RGBA()\<close> returns: alpha-premultiplied red, green, blue and
  alpha, each in \<open>[0, 0xffff]\<close>. A source image (\<open>image.Image\<close>) is its bounds and its
  \<open>At\<close>. The canvas is an \<open>*image.RGBA\<close>: its \<open>Rect\<close> and its 8-bit pixels, addressed
  by coordinate instead of through \<open>Pix\<close> and \<open>Stride\<close>.
\<close>

type_synonym colour = "nat \<times> nat \<times> nat \<times> nat"

record Image =
  Bounds :: Rectangle
  At :: "int \<Rightarrow> int \<Rightarrow> colour"

record RGBA =
  Rect :: Rectangle
  Pix :: "int \<Rightarrow> int \<Rightarrow> colour"

definition NewRGBA :: "Rectangle \<Rightarrow> RGBA" where
  "NewRGBA r = \<lparr>Rect = r, Pix = (\<lambda>x y. (0, 0, 0, 0))\<rparr>"

definition Transparent :: colour where
  "Transparent = (0, 0, 0, 0)"

definition White :: colour where
  "White = (65535, 65535, 65535, 65535)"

text \<open>\<open>image.Uniform\<close>: one colour everywhere, with the bounds Go gives it.\<close>

definition Uniform :: "colour \<Rightarrow> Image" where
  "Uniform c = \<lparr>Bounds = Rectangle (Pt (- 1000000000) (- 1000000000)) (Pt 1000000000 1000000000),
                 At = (\<lambda>x y. c)\<rparr>"

subsection \<open>Package image/draw\<close>

datatype Op = Over | Src

definition alpha :: "colour \<Rightarrow> nat" where
  "alpha c = (case c of (r, g, b, a) \<Rightarrow> a)"

text \<open>
  One pixel of \<open>draw.DrawMask\<close> on an RGBA destination: \<open>s\<close> is the source colour,
  \<open>ma\<close> the mask's alpha (\<open>0xffff\<close> without a mask) and \<open>d\<close> the destination's 8-bit
  pixel. With \<open>m = 0xffff\<close>, Over computes \<open>(d * a + s * ma) / m >> 8\<close> for
  \<open>a = (m - sa * ma / m) * 0x101\<close>, and Src computes \<open>s * ma / m >> 8\<close>.
\<close>

definition blend1 :: "Op \<Rightarrow> nat \<Rightarrow> nat \<Rightarrow> nat \<Rightarrow> nat \<Rightarrow> nat" where
  "blend1 op s sa ma d =
     (case op of
        Over \<Rightarrow> ((d * ((65535 - sa * ma div 65535) * 257) + s * ma) div 65535 div 256) mod 256
      | Src \<Rightarrow> (s * ma div 65535 div 256) mod 256)"

definition blend :: "Op \<Rightarrow> colour \<Rightarrow> nat \<Rightarrow> colour \<Rightarrow> colour" where
  "blend op s ma d =
     (case s of (sr, sg, sb, sa) \<Rightarrow>
      case d of (dr, dg, db, da) \<Rightarrow>
        if ma = 0 \<and> op = Over then d
        else (blend1 op sr sa ma dr, blend1 op sg sa ma dg, blend1 op sb sa ma db,
              blend1 op sa sa ma da))"

text \<open>
  \<open>clip\<close> of image/draw: the rectangle is cut to the destination's bounds, to the
  source's bounds moved so that \<open>sp\<close> lies on the rectangle's corner, and to the mask's
  likewise.
\<close>

definition clip :: "Rectangle \<Rightarrow> Rectangle \<Rightarrow> Rectangle \<Rightarrow> Point \<Rightarrow> (Image \<times> Point) option \<Rightarrow> Rectangle" where
  "clip dstb r srcb sp msk =
     (let orig = Min_p r;
          r1 = Intersect r dstb;
          r2 = Intersect r1 (Rect_Add srcb (Pt_Sub orig sp))
      in case msk of
           None \<Rightarrow> r2
         | Some (mk, mp) \<Rightarrow> Intersect r2 (Rect_Add (Bounds mk) (Pt_Sub orig mp)))"

definition DrawMask :: "RGBA \<Rightarrow> Rectangle \<Rightarrow> Image \<Rightarrow> Point \<Rightarrow> (Image \<times> Point) option \<Rightarrow> Op \<Rightarrow> RGBA" where
  "DrawMask dst r src sp msk op =
     (let rc = clip (Rect dst) r (Bounds src) sp msk in
      if Rect_Empty rc then dst
      else dst\<lparr>Pix := (\<lambda>x y.
             if Pt_In (Pt x y) rc
             then blend op
                    (At src (X sp + (x - X (Min_p r))) (Y sp + (y - Y (Min_p r))))
                    (case msk of
                       None \<Rightarrow> 65535
                     | Some (mk, mp) \<Rightarrow>
                         alpha (At mk (X mp + (x - X (Min_p r))) (Y mp + (y - Y (Min_p r)))))
                    (Pix dst x y)
             else Pix dst x y)\<rparr>)"

subsection \<open>Package strconv\<close>

text \<open>
  \<open>strconv.Itoa\<close>: the decimal digits of an integer, with a minus sign when it is
  negative.
\<close>

definition digit_char :: "nat \<Rightarrow> char" where
  "digit_char n = ''0123456789'' ! n"

function utoa :: "nat \<Rightarrow> string" where
  "utoa n = (if n < 10 then [digit_char n] else utoa (n div 10) @ [digit_char (n mod 10)])"
  by pat_completeness auto
termination
  by (relation "measure id") auto

declare utoa.simps [simp del]

definition Itoa :: "int \<Rightarrow> string" where
  "Itoa i = (if i < 0 then CHR ''-'' # utoa (nat (- i)) else utoa (nat i))"

text \<open>
  \<open>strconv.Atoi\<close> on a 64-bit platform: an optional sign, then one or more decimal
  digits and nothing else (a syntax error otherwise); a value outside
  \<open>[-2^63, 2^63 - 1]\<close> is a range error.
\<close>

datatype NumError = ErrSyntax | ErrRange

definition is_digit :: "char \<Rightarrow> bool" where
  "is_digit c \<longleftrightarrow> 48 \<le> (of_char c :: nat) \<and> (of_char c :: nat) \<le> 57"

definition digits_value :: "string \<Rightarrow> int" where
  "digits_value ds = foldl (\<lambda>n ch. n * 10 + ((of_char ch :: int) - 48)) 0 ds"

definition Atoi :: "string \<Rightarrow> NumError + int" where
  "Atoi s =
     (let neg = (s \<noteq> [] \<and> hd s = CHR ''-'');
          ds = (if s \<noteq> [] \<and> (hd s = CHR ''-'' \<or> hd s = CHR ''+'') then tl s else s)
      in if ds = [] \<or> \<not> list_all is_digit ds then Inl ErrSyntax
         else let n = (if neg then - digits_value ds else digits_value ds)
              in if n < - (2 ^ 63) \<or> n > 2 ^ 63 - 1 then Inl ErrRange else Inr n)"

subsection \<open>Fonts, files and the trace of library calls\<close>

text \<open>
  What the program reads from its surroundings is a parameter: the files, the font
  parser, the image decoder and the PNG encoder. A font face gives the rounded width of
  a string (\<open>font.MeasureString(face, s).Round()\<close>), the ceiling of its ascent
  (\<open>face.Metrics().Ascent.Ceil()\<close>) and, for a string drawn with the dot at \<open>(x, y)\<close>,
  the glyphs \<open>Drawer.DrawString\<close> composites: each one a destination rectangle, an alpha
  mask and the mask's origin.
\<close>

type_synonym error = string

type_synonym bytes = string

record Glyph =
  glyph_dr :: Rectangle
  glyph_mask :: Image
  glyph_maskp :: Point

record Face =
  Measure :: "string \<Rightarrow> int"
  Ascent_Ceil :: int
  Glyphs :: "int \<Rightarrow> int \<Rightarrow> string \<Rightarrow> Glyph list"

datatype sfnt_Font = SfntFont bytes

record Env =
  ioutil_ReadFile :: "string \<Rightarrow> error + bytes"
  opentype_Parse :: "bytes \<Rightarrow> error + sfnt_Font"
  opentype_NewFace :: "sfnt_Font \<Rightarrow> real \<Rightarrow> error + Face"
  os_Open :: "string \<Rightarrow> error + bytes"
  image_Decode :: "bytes \<Rightarrow> error + Image"
  png_Encode :: "RGBA \<Rightarrow> bytes \<times> error option"

text \<open>
  The trace records, in order, every file the program opens and every drawing call it
  makes on the canvas.
\<close>

datatype event =
    ReadFile string
  | Open string
  | Draw Rectangle Image Point Op
  | DrawString Face int int string colour

text \<open>\<open>loadFont\<close> (lines 49 to 67); the face options other than the size are constants.\<close>

definition loadFont :: "Env \<Rightarrow> string \<Rightarrow> real \<Rightarrow> event list \<Rightarrow> (error + Face) \<times> event list" where
  "loadFont env path sz lg =
     (let lg1 = lg @ [ReadFile path] in
      case ioutil_ReadFile env path of
        Inl err \<Rightarrow> (Inl err, lg1)
      | Inr fontBytes \<Rightarrow>
          (case opentype_Parse env fontBytes of
             Inl err \<Rightarrow> (Inl err, lg1)
           | Inr fontType \<Rightarrow>
               (case opentype_NewFace env fontType sz of
                  Inl err \<Rightarrow> (Inl err, lg1)
                | Inr face \<Rightarrow> (Inr face, lg1))))"

text \<open>\<open>loadImage\<close> (lines 269 to 284).\<close>

definition loadImage :: "Env \<Rightarrow> string \<Rightarrow> event list \<Rightarrow> (error + Image) \<times> event list" where
  "loadImage env filePath lg =
     (let lg1 = lg @ [Open filePath] in
      case os_Open env filePath of
        Inl err \<Rightarrow> (Inl err, lg1)
      | Inr file \<Rightarrow>
          (case image_Decode env file of
             Inl err \<Rightarrow> (Inl err, lg1)
           | Inr img \<Rightarrow> (Inr img, lg1)))"

text \<open>\<open>draw.Draw\<close> is \<open>DrawMask\<close> without a mask.\<close>

definition draw_Draw :: "RGBA \<Rightarrow> Rectangle \<Rightarrow> Image \<Rightarrow> Point \<Rightarrow> Op \<Rightarrow> event list \<Rightarrow> RGBA \<times> event list" where
  "draw_Draw dst r src sp op lg = (DrawMask dst r src sp None op, lg @ [Draw r src sp op])"

text \<open>
  \<open>drawText\<close> (lines 70 to 79): \<open>DrawString\<close> composites each glyph with a non-empty
  rectangle through its mask, the source being the uniform colour.
\<close>

definition drawText :: "RGBA \<Rightarrow> Face \<Rightarrow> int \<Rightarrow> int \<Rightarrow> string \<Rightarrow> colour \<Rightarrow> event list \<Rightarrow> RGBA \<times> event list" where
  "drawText img face x y text col lg =
     (foldl (\<lambda>dst g.
         if Rect_Empty (glyph_dr g) then dst
         else DrawMask dst (glyph_dr g) (Uniform col) (Pt 0 0)
                (Some (glyph_mask g, glyph_maskp g)) Over)
        img (Glyphs face x y text),
      lg @ [DrawString face x y text col])"

subsection \<open>The canvas\<close>

text \<open>\<open>placeImageOnCanvas\<close> (lines 287 to 312); its error is always nil.\<close>

definition placeImageOnCanvas :: "Image \<Rightarrow> event list \<Rightarrow> (error + RGBA) \<times> event list" where
  "placeImageOnCanvas src lg =
     (let canvasSize = Pt 200 200;
          canvasRect = Rectangle (Pt 0 0) canvasSize;
          canvas = NewRGBA canvasRect;
          clearColor = Transparent;
          (canvas, lg) = draw_Draw canvas (Rect canvas) (Uniform clearColor) (Pt 0 0) Src lg;
          srcBounds = Bounds src;
          srcSize = Rect_Size srcBounds;
          offset = Pt_Div (Pt_Sub canvasSize srcSize) 2;
          drawPoint = Pt (X offset) (Y offset);
          (canvas, lg) = draw_Draw canvas (Rect_Add srcBounds drawPoint) src (Min_p srcBounds) Over lg
      in (Inr canvas, lg))"

text \<open>\<open>centerImageOnCanvas\<close> (lines 314 to 330).\<close>

definition centerImageOnCanvas :: "Image \<Rightarrow> RGBA \<Rightarrow> event list \<Rightarrow> RGBA \<times> event list" where
  "centerImageOnCanvas src dest lg =
     (let srcBounds = Bounds src;
          destBounds = Rect dest;
          srcSize = Rect_Size srcBounds;
          destSize = Rect_Size destBounds;
          offset = Pt (quo (X destSize - X srcSize) 2) (quo (Y destSize - Y srcSize) 2);
          drawPoint = Pt (X offset) (Y offset)
      in draw_Draw dest (Rect_Add srcBounds drawPoint) src (Min_p srcBounds) Over lg)"

subsection \<open>The portrait builder\<close>

record Character =
  Name :: string
  Affiliation :: string
  imgSrc :: string
  maxZetas :: int
  maxOmicrons :: int

record CharacterPortrait =
  Character :: string
  GearLevel :: int
  RelicLevel :: int
  Zetas :: int
  Omicrons :: int

text \<open>
  \<open>buildPortrait\<close> (lines 169 to 266) is one function of four commented blocks after
  the character image is placed. Each block is a definition here, taking the canvas and
  the trace and returning them, or the error the block returns with.
\<close>

text \<open>Lines 219 to 234: the gear or relic border.\<close>

definition addBorder :: "Env \<Rightarrow> CharacterPortrait \<Rightarrow> Character \<Rightarrow> RGBA \<Rightarrow> event list \<Rightarrow> (error + RGBA) \<times> event list" where
  "addBorder env portrait charData finalImage lg =
     (if GearLevel portrait < 13 then
        (case loadImage env (''assets/gear/'' @ Itoa (GearLevel portrait) @ ''.png'') lg of
           (Inl err, lg) \<Rightarrow> (Inl err, lg)
         | (Inr borderImg, lg) \<Rightarrow>
             (let (finalImage, lg) = centerImageOnCanvas borderImg finalImage lg
              in (Inr finalImage, lg)))
      else
        (case loadImage env (''assets/relics/'' @ Affiliation charData @ ''.png'') lg of
           (Inl err, lg) \<Rightarrow> (Inl err, lg)
         | (Inr relicBorderImg, lg) \<Rightarrow>
             (let (finalImage, lg) =
                    draw_Draw finalImage (Rect finalImage) relicBorderImg (Pt 0 0) Over lg
              in (Inr finalImage, lg))))"

text \<open>Lines 236 to 242: the level badge and the level text.\<close>

definition addLevelBadge :: "Env \<Rightarrow> Point \<Rightarrow> Face \<Rightarrow> Point \<Rightarrow> string \<Rightarrow> RGBA \<Rightarrow> event list \<Rightarrow> (error + RGBA) \<times> event list" where
  "addLevelBadge env levelBadgePosition interFontFaceLarge levelTextPosition levelText finalImage lg =
     (case loadImage env ''assets/badges/level.png'' lg of
        (Inl err, lg) \<Rightarrow> (Inl err, lg)
      | (Inr levelBadgeImg, lg) \<Rightarrow>
          (let (finalImage, lg) =
                 draw_Draw finalImage (Rect_Add (Bounds levelBadgeImg) levelBadgePosition)
                   levelBadgeImg (Pt 0 0) Over lg;
               (finalImage, lg) =
                 drawText finalImage interFontFaceLarge (X levelTextPosition) (Y levelTextPosition)
                   levelText White lg
           in (Inr finalImage, lg)))"

text \<open>Lines 244 to 252: the zeta badge and its count.\<close>

definition addZetaBadge :: "Env \<Rightarrow> CharacterPortrait \<Rightarrow> Point \<Rightarrow> Face \<Rightarrow> Point \<Rightarrow> string \<Rightarrow> RGBA \<Rightarrow> event list \<Rightarrow> (error + RGBA) \<times> event list" where
  "addZetaBadge env portrait zetaBadgePosition interFontFaceSmall zetaTextPosition zetaText finalImage lg =
     (if Zetas portrait > 0 then
        (case loadImage env ''assets/badges/zeta.png'' lg of
           (Inl err, lg) \<Rightarrow> (Inl err, lg)
         | (Inr zetaBadgeImg, lg) \<Rightarrow>
             (let (finalImage, lg) =
                    draw_Draw finalImage (Rect_Add (Bounds zetaBadgeImg) zetaBadgePosition)
                      zetaBadgeImg (Pt 0 0) Over lg;
                  (finalImage, lg) =
                    drawText finalImage interFontFaceSmall (X zetaTextPosition) (Y zetaTextPosition)
                      zetaText White lg
              in (Inr finalImage, lg)))
      else (Inr finalImage, lg))"

text \<open>Lines 254 to 262: the omicron badge and its count.\<close>

definition addOmicronBadge :: "Env \<Rightarrow> CharacterPortrait \<Rightarrow> Point \<Rightarrow> Face \<Rightarrow> Point \<Rightarrow> string \<Rightarrow> RGBA \<Rightarrow> event list \<Rightarrow> (error + RGBA) \<times> event list" where
  "addOmicronBadge env portrait omicronBadgePosition interFontFaceSmall omicronTextPosition omicronText finalImage lg =
     (if Omicrons portrait > 0 then
        (case loadImage env ''assets/badges/omicron.png'' lg of
           (Inl err, lg) \<Rightarrow> (Inl err, lg)
         | (Inr omicronBadgeImg, lg) \<Rightarrow>
             (let (finalImage, lg) =
                    draw_Draw finalImage (Rect_Add (Bounds omicronBadgeImg) omicronBadgePosition)
                      omicronBadgeImg (Pt 0 0) Over lg;
                  (finalImage, lg) =
                    drawText finalImage interFontFaceSmall (X omicronTextPosition)
                      (Y omicronTextPosition) omicronText White lg
              in (Inr finalImage, lg)))
      else (Inr finalImage, lg))"

text \<open>
  \<open>orReturn\<close> is the statement \<open>if err != nil { return nil, err }\<close> after a call: the
  error is returned with the trace as it stands, and nothing after it runs.
\<close>

definition orReturn :: "(error + 'a) \<times> event list \<Rightarrow> ('a \<Rightarrow> event list \<Rightarrow> (error + 'b) \<times> event list) \<Rightarrow> (error + 'b) \<times> event list" where
  "orReturn m k = (case m of (Inl err, lg) \<Rightarrow> (Inl err, lg) | (Inr v, lg) \<Rightarrow> k v lg)"

definition buildPortrait :: "Env \<Rightarrow> CharacterPortrait \<Rightarrow> Character \<Rightarrow> event list \<Rightarrow> (error + RGBA) \<times> event list" where
  "buildPortrait env portrait charData lg =
     orReturn (loadFont env ''assets/fonts/Inter-Regular.ttf'' 18 lg) (\<lambda>interFontFaceSmall lg.
     orReturn (loadFont env ''assets/fonts/Inter-Regular.ttf'' 24 lg) (\<lambda>interFontFaceLarge lg.
       let zetaBadgePosition = Pt 18 100;
           zetaBadgeSize = Pt 60 60;
           omicronBadgePosition = Pt 121 100;
           omicronBadgeSize = Pt 60 60;
           levelBadgePosition = Pt 75 128;
           levelBadgeSize = Pt 50 44;
           zetaText = Itoa (Zetas portrait);
           zetaTextWidth = Measure interFontFaceSmall zetaText;
           zetaTextPosition =
             Pt (X zetaBadgePosition + quo (X zetaBadgeSize - zetaTextWidth) 2)
                ((Y zetaBadgePosition
                   + quo (Y zetaBadgeSize + Ascent_Ceil interFontFaceSmall) 2) - 4);
           omicronText = Itoa (Omicrons portrait);
           omicronTextWidth = Measure interFontFaceSmall omicronText;
           omicronTextPosition =
             Pt (X omicronBadgePosition + quo (X omicronBadgeSize - omicronTextWidth) 2)
                ((Y omicronBadgePosition
                   + quo (Y omicronBadgeSize + Ascent_Ceil interFontFaceSmall) 2) - 4);
           levelText = ''85'';
           levelTextWidth = Measure interFontFaceLarge levelText;
           levelTextPosition =
             Pt (X levelBadgePosition + quo (X levelBadgeSize - levelTextWidth) 2)
                ((Y levelBadgePosition
                   + quo (Y levelBadgeSize + Ascent_Ceil interFontFaceLarge) 2) - 5)
       in
     orReturn (loadImage env (''assets/characters/'' @ imgSrc charData) lg) (\<lambda>characterImg lg.
     orReturn (placeImageOnCanvas characterImg lg) (\<lambda>finalImage lg.
     orReturn (addBorder env portrait charData finalImage lg) (\<lambda>finalImage lg.
     orReturn (addLevelBadge env levelBadgePosition interFontFaceLarge levelTextPosition
                 levelText finalImage lg) (\<lambda>finalImage lg.
     orReturn (addZetaBadge env portrait zetaBadgePosition interFontFaceSmall zetaTextPosition
                 zetaText finalImage lg) (\<lambda>finalImage lg.
     orReturn (addOmicronBadge env portrait omicronBadgePosition interFontFaceSmall
                 omicronTextPosition omicronText finalImage lg) (\<lambda>finalImage lg.
       (Inr finalImage, lg)))))))))"

subsection \<open>Package net/http\<close>

text \<open>
  A \<open>ResponseWriter\<close> is its header map, the status once written and the body so far.
  \<open>WriteHeader\<close> counts once; \<open>Write\<close> writes status 200 first when none was written.
\<close>

record ResponseWriter =
  Header :: "string \<rightharpoonup> string"
  Status :: "int option"
  Body :: string

definition NewResponseWriter :: ResponseWriter where
  "NewResponseWriter = \<lparr>Header = Map.empty, Status = None, Body = []\<rparr>"

definition Header_Set :: "ResponseWriter \<Rightarrow> string \<Rightarrow> string \<Rightarrow> ResponseWriter" where
  "Header_Set w k v = w\<lparr>Header := (Header w)(k \<mapsto> v)\<rparr>"

definition Header_Del :: "ResponseWriter \<Rightarrow> string \<Rightarrow> ResponseWriter" where
  "Header_Del w k = w\<lparr>Header := (Header w)(k := None)\<rparr>"

definition WriteHeader :: "ResponseWriter \<Rightarrow> int \<Rightarrow> ResponseWriter" where
  "WriteHeader w code = (if Status w = None then w\<lparr>Status := Some code\<rparr> else w)"

definition Write :: "ResponseWriter \<Rightarrow> bytes \<Rightarrow> ResponseWriter" where
  "Write w bs = (let w = WriteHeader w 200 in w\<lparr>Body := Body w @ bs\<rparr>)"

definition http_Error :: "ResponseWriter \<Rightarrow> string \<Rightarrow> int \<Rightarrow> ResponseWriter" where
  "http_Error w msg code =
     (let w = Header_Del w ''Content-Length'';
          w = Header_Set w ''Content-Type'' ''text/plain; charset=utf-8'';
          w = Header_Set w ''X-Content-Type-Options'' ''nosniff'';
          w = WriteHeader w code
      in Write w (msg @ [CHR 0x0A]))"

text \<open>\<open>url.Values.Get\<close>: the first value of the key, or the empty string.\<close>

definition Values_Get :: "(string \<rightharpoonup> string list) \<Rightarrow> string \<Rightarrow> string" where
  "Values_Get query key = (case query key of None \<Rightarrow> [] | Some vs \<Rightarrow> (case vs of [] \<Rightarrow> [] | v # _ \<Rightarrow> v))"

subsection \<open>The request handler\<close>

record Request =
  Method :: string
  Query :: "string \<rightharpoonup> string list"

datatype 'a outcome = Panics string | Returns 'a

definition supportedCharacters :: "string \<rightharpoonup> Character" where
  "supportedCharacters =
     [''darth_vader'' \<mapsto>
        \<lparr>Name = ''Darth Vader'', Affiliation = ''dark_side'', imgSrc = ''darth_vader.png'',
         maxZetas = 3, maxOmicrons = 1\<rparr>]"

text \<open>
  \<open>getIntFromQuery\<close> (lines 156 to 167) returns the value and the error side by side,
  as the Go does: the handler reads the value also when the error is not nil. Indexing
  an empty slice of values panics.
\<close>

definition getIntFromQuery :: "(string \<rightharpoonup> string list) \<Rightarrow> string \<Rightarrow> (int \<times> error option) outcome" where
  "getIntFromQuery query key =
     (case query key of
        None \<Rightarrow> Returns (0, None)
      | Some valueStr \<Rightarrow>
          (case valueStr of
             [] \<Rightarrow> Panics ''index out of range [0] with length 0''
           | v # _ \<Rightarrow>
               if length v = 0 then Returns (0, None)
               else (case Atoi v of
                       Inl err \<Rightarrow>
                         Returns (0, Some (''parameter '' @ [CHR 0x27] @ key @ [CHR 0x27]
                                   @ '' should be an integer, got '' @ [CHR 0x27] @ v @ [CHR 0x27]))
                     | Inr n \<Rightarrow> Returns (n, None))))"

text \<open>Lines 141 to 151: the response once the builder has returned.\<close>

definition respondPortrait :: "Env \<Rightarrow> ResponseWriter \<Rightarrow> (error + RGBA) \<times> event list \<Rightarrow> ResponseWriter \<times> event list" where
  "respondPortrait env w built =
     (case built of
        (Inl err, lg) \<Rightarrow> (http_Error w (''Failed to create portrait: '' @ err) 500, lg)
      | (Inr img, lg) \<Rightarrow>
          (let w = Header_Set w ''Content-Type'' ''image/png'';
               (written, err) = png_Encode env img;
               w = Write w written
           in case err of
                Some e \<Rightarrow> (http_Error w (''Failed to encode image: '' @ e) 500, lg)
              | None \<Rightarrow> (w, lg)))"

text \<open>\<open>createPortraitHandler\<close> (lines 90 to 152).\<close>

definition createPortraitHandler :: "Env \<Rightarrow> ResponseWriter \<Rightarrow> Request \<Rightarrow> (ResponseWriter \<times> event list) outcome" where
  "createPortraitHandler env w r =
     (if Method r \<noteq> ''GET'' then Returns (http_Error w ''Only GET method is allowed'' 405, [])
      else
        let query = Query r;
            charID = Values_Get query ''char''
        in case supportedCharacters charID of
             None \<Rightarrow>
               Returns (http_Error w (''Character '' @ [CHR 0x27] @ charID @ [CHR 0x27]
                          @ '' is not supported by this API'') 400, [])
           | Some char \<Rightarrow>
        (case getIntFromQuery query ''gear_level'' of
           Panics p \<Rightarrow> Panics p
         | Returns (gearLevel, err) \<Rightarrow>
        if err \<noteq> None \<or> gearLevel < 1 \<or> gearLevel > 13 then
          Returns (http_Error w ''The gear_level must be between 1 and 13'' 400, [])
        else
        (case getIntFromQuery query ''relic_level'' of
           Panics p \<Rightarrow> Panics p
         | Returns (relicLevel, err) \<Rightarrow>
        if gearLevel \<noteq> 13 \<and> relicLevel \<noteq> 0 \<and> err = None then
          Returns (http_Error w
            ''The relic_level should not be provided if gear_level is not 13'' 400, [])
        else if gearLevel = 13 \<and> (relicLevel < 1 \<or> relicLevel > 9) then
          Returns (http_Error w ''The relic_level must be between 1 and 9'' 400, [])
        else
        (case getIntFromQuery query ''zetas'' of
           Panics p \<Rightarrow> Panics p
         | Returns (zetas, _) \<Rightarrow>
        if zetas < 0 \<or> zetas > maxZetas char then
          Returns (http_Error w (''The zeta level must be between 0 and ''
                     @ Itoa (maxZetas char) @ '' for '' @ Name char) 400, [])
        else
        (case getIntFromQuery query ''omicrons'' of
           Panics p \<Rightarrow> Panics p
         | Returns (omicrons, _) \<Rightarrow>
        if omicrons < 0 \<or> omicrons > maxOmicrons char then
          Returns (http_Error w (''The omicron level must be between 0 and ''
                     @ Itoa (maxOmicrons char) @ '' for '' @ Name char) 400, [])
        else
          let portrait = \<lparr>Character = charID, GearLevel = gearLevel, RelicLevel = relicLevel,
                           Zetas = zetas, Omicrons = omicrons\<rparr>
          in Returns (respondPortrait env w (buildPortrait env portrait char [])))))))"

section \<open>Vocabulary of the properties\<close>

text \<open>
  The result of a load does not depend on the trace: \<open>font_of\<close> and \<open>image_of\<close> are what
  \<open>loadFont\<close> and \<open>loadImage\<close> return for a path.
\<close>

definition font_of :: "Env \<Rightarrow> string \<Rightarrow> real \<Rightarrow> error + Face" where
  "font_of env path sz = fst (loadFont env path sz [])"

definition image_of :: "Env \<Rightarrow> string \<Rightarrow> error + Image" where
  "image_of env path = fst (loadImage env path [])"

text \<open>
  The load steps of a build, in the order the builder reaches them, the error of a step
  (if it fails), the first error of a list of steps, and the steps that are attempted:
  all up to and including the first that fails.
\<close>

datatype load = LoadFont string real | LoadImage string

definition load_error :: "Env \<Rightarrow> load \<Rightarrow> error option" where
  "load_error env l =
     (case l of
        LoadFont path sz \<Rightarrow> (case font_of env path sz of Inl e \<Rightarrow> Some e | Inr _ \<Rightarrow> None)
      | LoadImage path \<Rightarrow> (case image_of env path of Inl e \<Rightarrow> Some e | Inr _ \<Rightarrow> None))"

definition load_event :: "load \<Rightarrow> event" where
  "load_event l = (case l of LoadFont path sz \<Rightarrow> ReadFile path | LoadImage path \<Rightarrow> Open path)"

definition border_path :: "CharacterPortrait \<Rightarrow> Character \<Rightarrow> string" where
  "border_path p c =
     (if GearLevel p < 13 then ''assets/gear/'' @ Itoa (GearLevel p) @ ''.png''
      else ''assets/relics/'' @ Affiliation c @ ''.png'')"

definition load_steps :: "CharacterPortrait \<Rightarrow> Character \<Rightarrow> load list" where
  "load_steps p c =
     [LoadFont ''assets/fonts/Inter-Regular.ttf'' 18,
      LoadFont ''assets/fonts/Inter-Regular.ttf'' 24,
      LoadImage (''assets/characters/'' @ imgSrc c),
      LoadImage (border_path p c),
      LoadImage ''assets/badges/level.png'']
     @ (if Zetas p > 0 then [LoadImage ''assets/badges/zeta.png''] else [])
     @ (if Omicrons p > 0 then [LoadImage ''assets/badges/omicron.png''] else [])"

fun first_error :: "Env \<Rightarrow> load list \<Rightarrow> error option" where
  "first_error env [] = None"
| "first_error env (l # ls) =
     (case load_error env l of Some e \<Rightarrow> Some e | None \<Rightarrow> first_error env ls)"

fun attempted :: "Env \<Rightarrow> load list \<Rightarrow> load list" where
  "attempted env [] = []"
| "attempted env (l # ls) = l # (if load_error env l = None then attempted env ls else [])"

text \<open>What a trace shows: the files loaded, the texts drawn, the rectangles drawn into.\<close>

fun is_load :: "event \<Rightarrow> bool" where
  "is_load (ReadFile path) = True"
| "is_load (Open path) = True"
| "is_load (Draw r src sp op) = False"
| "is_load (DrawString face x y s col) = False"

fun drawn_texts :: "event list \<Rightarrow> string list" where
  "drawn_texts [] = []"
| "drawn_texts (DrawString face x y s col # es) = s # drawn_texts es"
| "drawn_texts (e # es) = drawn_texts es"

fun event_rects :: "event \<Rightarrow> Rectangle list" where
  "event_rects (Draw r src sp op) = [r]"
| "event_rects (DrawString face x y s col) = map glyph_dr (Glyphs face x y s)"
| "event_rects e = []"

text \<open>
  The centring offset as a formula over the integers: the floor of half the difference
  of the sizes, and one more when the content is larger than its container by an odd
  amount.
\<close>

definition centred :: "int \<Rightarrow> int \<Rightarrow> int" where
  "centred container content =
     (let d = container - content in if d < 0 \<and> odd d then d div 2 + 1 else d div 2)"

text \<open>
  The three events of a badge layer, and the text drawn right after the level badge.
\<close>

definition badge_events :: "string \<Rightarrow> Image \<Rightarrow> Point \<Rightarrow> Face \<Rightarrow> Point \<Rightarrow> string \<Rightarrow> event list" where
  "badge_events path b pos face tpos s =
     [Open path, Draw (Rect_Add (Bounds b) pos) b (Pt 0 0) Over,
      DrawString face (X tpos) (Y tpos) s White]"

fun level_text :: "event list \<Rightarrow> string option" where
  "level_text (Open path # Draw r src sp op # DrawString face x y s col # es) =
     (if path = ''assets/badges/level.png'' then Some s
      else level_text (Draw r src sp op # DrawString face x y s col # es))"
| "level_text (e # es) = level_text es"
| "level_text [] = None"

text \<open>\<open>Rectangle.In\<close>: every point of \<open>r\<close> is a point of \<open>s\<close>.\<close>

definition Rect_In :: "Rectangle \<Rightarrow> Rectangle \<Rightarrow> bool" where
  "Rect_In r s \<longleftrightarrow>
     Rect_Empty r
     \<or> (X (Min_p s) \<le> X (Min_p r) \<and> X (Max_p r) \<le> X (Max_p s)
        \<and> Y (Min_p s) \<le> Y (Min_p r) \<and> Y (Max_p r) \<le> Y (Max_p s))"

definition touched :: "event list \<Rightarrow> int \<Rightarrow> int \<Rightarrow> bool" where
  "touched es x y \<longleftrightarrow> list_ex (\<lambda>r. Pt_In (Pt x y) r) (concat (map event_rects es))"

definition pixel_of :: "(error + RGBA) \<times> event list \<Rightarrow> int \<Rightarrow> int \<Rightarrow> colour option" where
  "pixel_of built x y = (case fst built of Inl e \<Rightarrow> None | Inr img \<Rightarrow> Some (Pix img x y))"

text \<open>
  \<open>runs env lg ls m\<close>: the computation \<open>m\<close>, started with the trace \<open>lg\<close>, has
  loaded exactly the attempted steps of \<open>ls\<close>, in order; it returns the first error
  of \<open>ls\<close>, with the failed load as the last event of its trace, or a result when no
  step fails.
\<close>

definition runs :: "Env \<Rightarrow> event list \<Rightarrow> load list \<Rightarrow> (error + 'a) \<times> event list \<Rightarrow> bool" where
  "runs env lg ls m \<longleftrightarrow>
     (\<exists>es. snd m = lg @ es
        \<and> filter is_load es = map load_event (attempted env ls)
        \<and> (case first_error env ls of
             Some e \<Rightarrow> fst m = Inl e \<and> es \<noteq> [] \<and> is_load (last es)
           | None \<Rightarrow> (\<exists>v. fst m = Inr v)))"

text \<open>
  \<open>accepts r c p\<close>: the request passes every check of lines 91 to 131, \<open>c\<close> is its
  character and \<open>p\<close> the portrait of line 133.
\<close>

definition accepts :: "Request \<Rightarrow> Character \<Rightarrow> CharacterPortrait \<Rightarrow> bool" where
  "accepts r c p \<longleftrightarrow>
     Method r = ''GET''
     \<and> supportedCharacters (Values_Get (Query r) ''char'') = Some c
     \<and> Character p = Values_Get (Query r) ''char''
     \<and> getIntFromQuery (Query r) ''gear_level'' = Returns (GearLevel p, None)
     \<and> 1 \<le> GearLevel p \<and> GearLevel p \<le> 13
     \<and> (case getIntFromQuery (Query r) ''relic_level'' of
          Panics m \<Rightarrow> False
        | Returns (rl, err) \<Rightarrow>
            rl = RelicLevel p
            \<and> (GearLevel p = 13 \<or> rl = 0 \<or> err \<noteq> None)
            \<and> (GearLevel p \<noteq> 13 \<or> (1 \<le> rl \<and> rl \<le> 9)))
     \<and> (case getIntFromQuery (Query r) ''zetas'' of
          Panics m \<Rightarrow> False
        | Returns (z, err) \<Rightarrow> z = Zetas p \<and> 0 \<le> z \<and> z \<le> maxZetas c)
     \<and> (case getIntFromQuery (Query r) ''omicrons'' of
          Panics m \<Rightarrow> False
        | Returns (z, err) \<Rightarrow> z = Omicrons p \<and> 0 \<le> z \<and> z \<le> maxOmicrons c)"

subsection \<open>Example surroundings and requests\<close>

definition solid :: "int \<Rightarrow> int \<Rightarrow> colour \<Rightarrow> Image" where
  "solid w h c = \<lparr>Bounds = Rectangle (Pt 0 0) (Pt w h), At = (\<lambda>x y. c)\<rparr>"

definition example_face :: Face where
  "example_face =
     \<lparr>Measure = (\<lambda>s. 10 * int (length s)), Ascent_Ceil = 18, Glyphs = (\<lambda>x y s. [])\<rparr>"

text \<open>
  Every file exists; the zeta badge is an opaque white square of side 100 and every
  other image a transparent pixel.
\<close>

definition example_env :: Env where
  "example_env =
     \<lparr>ioutil_ReadFile = (\<lambda>path. Inr ''ttf''),
      opentype_Parse = (\<lambda>bs. Inr (SfntFont bs)),
      opentype_NewFace = (\<lambda>f sz. Inr example_face),
      os_Open = (\<lambda>path. Inr path),
      image_Decode = (\<lambda>bs. if bs = ''assets/badges/zeta.png'' then Inr (solid 100 100 White)
                            else Inr (solid 1 1 Transparent)),
      png_Encode = (\<lambda>img. (''PNG'', None))\<rparr>"

text \<open>The same, without the level badge's file.\<close>

definition example_env_no_level :: Env where
  "example_env_no_level =
     example_env\<lparr>os_Open := (\<lambda>path. if path = ''assets/badges/level.png''
                                      then Inl ''open assets/badges/level.png: no such file or directory''
                                      else Inr path)\<rparr>"

text \<open>The same files, with an opaque red 200 by 200 image as every border.\<close>

definition example_env_border :: Env where
  "example_env_border =
     example_env\<lparr>image_Decode := (\<lambda>bs.
        if bs = ''assets/gear/5.png'' \<or> bs = ''assets/relics/dark_side.png''
        then Inr (solid 200 200 (65535, 0, 0, 65535))
        else Inr (solid 1 1 Transparent))\<rparr>"

definition darth_vader :: Character where
  "darth_vader =
     \<lparr>Name = ''Darth Vader'', Affiliation = ''dark_side'', imgSrc = ''darth_vader.png'',
      maxZetas = 3, maxOmicrons = 1\<rparr>"

definition example_query :: "string \<Rightarrow> string \<Rightarrow> string \<Rightarrow> string \<Rightarrow> Request" where
  "example_query gear relic zetas omicrons =
     \<lparr>Method = ''GET'',
      Query = [''char'' \<mapsto> [''darth_vader''], ''gear_level'' \<mapsto> [gear],
               ''relic_level'' \<mapsto> [relic], ''zetas'' \<mapsto> [zetas], ''omicrons'' \<mapsto> [omicrons]]\<rparr>"

section \<open>Properties\<close>

subsection \<open>Loads, traces and early returns\<close>

lemma loadFont_eq: "loadFont env path sz lg = (font_of env path sz, lg @ [ReadFile path])"
  by (simp add: font_of_def loadFont_def Let_def split: sum.splits)

lemma loadImage_eq: "loadImage env path lg = (image_of env path, lg @ [Open path])"
  by (simp add: image_of_def loadImage_def Let_def split: sum.splits)

lemma orReturn_InrE:
  assumes "orReturn m k = (Inr v, lg)"
  obtains u l where "m = (Inr u, l)" and "k u l = (Inr v, lg)"
  using assms by (cases m) (auto simp add: orReturn_def split: sum.splits)

lemma first_error_append:
  "first_error env (ls1 @ ls2)
     = (case first_error env ls1 of Some e \<Rightarrow> Some e | None \<Rightarrow> first_error env ls2)"
  by (induction ls1) (simp_all split: option.splits)

lemma attempted_append:
  "attempted env (ls1 @ ls2)
     = (if first_error env ls1 = None then ls1 @ attempted env ls2 else attempted env ls1)"
  by (induction ls1) (auto split: option.splits)

lemma attempted_all: "first_error env ls = None \<Longrightarrow> attempted env ls = ls"
  by (induction ls) (auto split: option.splits)

lemma first_error_None_iff:
  "first_error env ls = None \<longleftrightarrow> list_all (\<lambda>l. load_error env l = None) ls"
  by (induction ls) (auto split: option.splits)

text \<open>The early return composes: a step, then what follows when it has not failed.\<close>

lemma runs_orReturn:
  assumes m: "runs env lg ls1 m"
    and k: "\<And>v l. m = (Inr v, l) \<Longrightarrow> runs env l ls2 (k v l)"
  shows "runs env lg (ls1 @ ls2) (orReturn m k)"
proof (cases "first_error env ls1")
  case (Some e)
  with m show ?thesis
    by (cases m) (auto simp add: runs_def orReturn_def first_error_append attempted_append)
next
  case None
  with m obtain v es where mv: "m = (Inr v, lg @ es)"
    and es: "filter is_load es = map load_event (attempted env ls1)"
    by (cases m) (auto simp add: runs_def)
  from k [OF mv] obtain es' where k1: "snd (k v (lg @ es)) = lg @ es @ es'"
    and k2: "filter is_load es' = map load_event (attempted env ls2)"
    and k3: "case first_error env ls2 of
               Some e \<Rightarrow> fst (k v (lg @ es)) = Inl e \<and> es' \<noteq> [] \<and> is_load (last es')
             | None \<Rightarrow> (\<exists>v'. fst (k v (lg @ es)) = Inr v')"
    by (auto simp add: runs_def)
  have "attempted env ls1 = ls1"
    using None by (rule attempted_all)
  then show ?thesis
    using None mv es k1 k2 k3
    by (auto simp add: runs_def orReturn_def first_error_append attempted_append
        split: option.splits)
qed

lemma runs_loadFont: "runs env lg [LoadFont path sz] (loadFont env path sz lg)"
  by (cases "font_of env path sz")
     (simp_all add: runs_def loadFont_eq load_error_def load_event_def)

lemma runs_loadImage: "runs env lg [LoadImage path] (loadImage env path lg)"
  by (cases "image_of env path")
     (simp_all add: runs_def loadImage_eq load_error_def load_event_def)

lemma runs_placeImageOnCanvas: "runs env lg [] (placeImageOnCanvas src lg)"
  by (simp add: runs_def placeImageOnCanvas_def Let_def draw_Draw_def)

lemma runs_addBorder: "runs env lg [LoadImage (border_path p c)] (addBorder env p c img lg)"
  by (cases "image_of env (border_path p c)")
     (auto simp add: runs_def addBorder_def border_path_def loadImage_eq Let_def draw_Draw_def
        centerImageOnCanvas_def load_error_def load_event_def)

lemma runs_addLevelBadge:
  "runs env lg [LoadImage ''assets/badges/level.png''] (addLevelBadge env pos face tpos s img lg)"
  by (cases "image_of env ''assets/badges/level.png''")
     (auto simp add: runs_def addLevelBadge_def loadImage_eq Let_def draw_Draw_def drawText_def
        load_error_def load_event_def)

lemma runs_addZetaBadge:
  "runs env lg (if Zetas p > 0 then [LoadImage ''assets/badges/zeta.png''] else [])
     (addZetaBadge env p pos face tpos s img lg)"
  by (cases "image_of env ''assets/badges/zeta.png''")
     (auto simp add: runs_def addZetaBadge_def loadImage_eq Let_def draw_Draw_def drawText_def
        load_error_def load_event_def)

lemma runs_addOmicronBadge:
  "runs env lg (if Omicrons p > 0 then [LoadImage ''assets/badges/omicron.png''] else [])
     (addOmicronBadge env p pos face tpos s img lg)"
  by (cases "image_of env ''assets/badges/omicron.png''")
     (auto simp add: runs_def addOmicronBadge_def loadImage_eq Let_def draw_Draw_def drawText_def
        load_error_def load_event_def)

lemma runs_return: "runs env lg [] (Inr v, lg)"
  by (simp add: runs_def)

lemma load_steps_split:
  "load_steps p c =
     [LoadFont ''assets/fonts/Inter-Regular.ttf'' 18]
     @ [LoadFont ''assets/fonts/Inter-Regular.ttf'' 24]
     @ [LoadImage (''assets/characters/'' @ imgSrc c)]
     @ []
     @ [LoadImage (border_path p c)]
     @ [LoadImage ''assets/badges/level.png'']
     @ (if Zetas p > 0 then [LoadImage ''assets/badges/zeta.png''] else [])
     @ (if Omicrons p > 0 then [LoadImage ''assets/badges/omicron.png''] else [])
     @ []"
  by (simp add: load_steps_def)

lemma runs_buildPortrait: "runs env lg (load_steps p c) (buildPortrait env p c lg)"
  unfolding buildPortrait_def Let_def load_steps_split
  by (intro runs_orReturn runs_loadFont runs_loadImage runs_placeImageOnCanvas runs_addBorder
      runs_addLevelBadge runs_addZetaBadge runs_addOmicronBadge runs_return)

lemma buildPortrait_trace_nonempty: "snd (buildPortrait env p c []) \<noteq> []"
proof -
  from runs_buildPortrait [of env "[]" p c]
  obtain es where es: "snd (buildPortrait env p c []) = es"
    and ld: "filter is_load es = map load_event (attempted env (load_steps p c))"
    by (auto simp add: runs_def)
  have "attempted env (load_steps p c) \<noteq> []"
    by (simp add: load_steps_def)
  with ld have "es \<noteq> []"
    by auto
  with es show ?thesis
    by simp
qed

subsection \<open>The response writer and the query\<close>

lemma Atoi_Nil: "Atoi [] = Inl ErrSyntax"
  by (simp add: Atoi_def)

lemma getInt_ok:
  "q k = Some (v # vs) \<Longrightarrow> Atoi v = Inr n \<Longrightarrow> getIntFromQuery q k = Returns (n, None)"
  by (auto simp add: getIntFromQuery_def Atoi_Nil)

lemma Body_http_Error: "Body (http_Error w msg code) = Body w @ msg @ [CHR 0x0A]"
  by (simp add: http_Error_def Write_def WriteHeader_def Header_Set_def Header_Del_def Let_def)

lemma Status_http_Error: "Status w = None \<Longrightarrow> Status (http_Error w msg code) = Some code"
  by (simp add: http_Error_def Write_def WriteHeader_def Header_Set_def Header_Del_def Let_def)

lemma http_Error_msg_inject: "http_Error w msg code = http_Error w msg' code' \<Longrightarrow> msg = msg'"
  using Body_http_Error [of w msg code] Body_http_Error [of w msg' code'] by simp

lemma respondPortrait_trace: "snd (respondPortrait env w built) = snd built"
  by (simp add: respondPortrait_def Let_def split: prod.splits sum.splits option.splits)

text \<open>
  A response that comes with an empty trace is not the builder's: the builder reads the
  font file before anything else.
\<close>

lemma respondPortrait_not_rejection:
  "respondPortrait env w (buildPortrait env p c []) \<noteq> (w', [])"
proof
  assume "respondPortrait env w (buildPortrait env p c []) = (w', [])"
  then have "snd (buildPortrait env p c []) = []"
    using respondPortrait_trace [of env w "buildPortrait env p c []"] by simp
  then show False
    using buildPortrait_trace_nonempty [of env p c] by simp
qed

lemma known_character:
  "supportedCharacters k = Some c \<Longrightarrow> k = ''darth_vader'' \<and> c = darth_vader"
  by (auto simp add: supportedCharacters_def darth_vader_def split: if_splits)

lemma handler_accepts:
  assumes "accepts r c p"
  shows "createPortraitHandler env w r = Returns (respondPortrait env w (buildPortrait env p c []))"
proof -
  have p: "p = \<lparr>Character = Character p, GearLevel = GearLevel p, RelicLevel = RelicLevel p,
                 Zetas = Zetas p, Omicrons = Omicrons p\<rparr>"
    by simp
  show ?thesis
    using assms
    apply (subst p)
    apply (auto simp add: accepts_def createPortraitHandler_def Let_def
        split: outcome.splits prod.splits)
    done
qed

subsection \<open>The examples\<close>

lemmas example_eval =
  example_query_def Values_Get_def supportedCharacters_def darth_vader_def
  Atoi_def is_digit_def digits_value_def getIntFromQuery_def

lemmas Itoa_eval = Itoa_def utoa.simps digit_char_def

lemma example_font_of: "font_of example_env path sz = Inr example_face"
  by (simp add: font_of_def loadFont_def example_env_def)

lemma example_image_of:
  "image_of example_env path
     = Inr (if path = ''assets/badges/zeta.png'' then solid 100 100 White else solid 1 1 Transparent)"
  by (simp add: image_of_def loadImage_def example_env_def)

lemma example_first_error: "first_error example_env ls = None"
proof (induction ls)
  case Nil
  show ?case by simp
next
  case (Cons l ls)
  have "load_error example_env l = None"
    by (cases l) (simp_all add: load_error_def example_font_of example_image_of)
  with Cons show ?case by simp
qed

lemma example_build_succeeds: "\<exists>img. fst (buildPortrait example_env p c lg) = Inr img"
  using runs_buildPortrait [of example_env lg p c]
  by (auto simp add: runs_def example_first_error)

lemma respondPortrait_ok:
  assumes "fst built = Inr img" and "snd (png_Encode env img) = None" and "Status w = None"
  shows "Status (fst (respondPortrait env w built)) = Some 200
         \<and> Header (fst (respondPortrait env w built)) ''Content-Type'' = Some ''image/png''
         \<and> Body (fst (respondPortrait env w built)) = Body w @ fst (png_Encode env img)"
  using assms
  by (cases built; cases "png_Encode env img")
     (simp add: respondPortrait_def Let_def Write_def WriteHeader_def Header_Set_def)

lemma example_response_ok:
  "Status (fst (respondPortrait example_env NewResponseWriter (buildPortrait example_env p c [])))
     = Some 200"
proof -
  obtain img where "fst (buildPortrait example_env p c []) = Inr img"
    using example_build_succeeds by blast
  then show ?thesis
    using respondPortrait_ok [of "buildPortrait example_env p c []" img example_env NewResponseWriter]
    by (simp add: example_env_def NewResponseWriter_def)
qed

subsection \<open>Drawing keeps the bounds of the canvas\<close>

lemma Rect_DrawMask: "Rect (DrawMask dst r src sp msk op) = Rect dst"
  by (simp add: DrawMask_def Let_def)

lemma Rect_foldl_DrawMask:
  "Rect (foldl (\<lambda>dst g. if c g then dst else DrawMask dst (r g) src sp (m g) op) img gs) = Rect img"
  by (induction gs arbitrary: img) (simp_all add: Rect_DrawMask)

lemma Rect_drawText: "Rect (fst (drawText img face x y s col lg)) = Rect img"
  by (simp add: drawText_def Rect_foldl_DrawMask)

lemma Rect_draw_Draw: "Rect (fst (draw_Draw dst r src sp op lg)) = Rect dst"
  by (simp add: draw_Draw_def Rect_DrawMask)

lemma Rect_centerImageOnCanvas: "Rect (fst (centerImageOnCanvas src dest lg)) = Rect dest"
  by (simp add: centerImageOnCanvas_def Let_def Rect_draw_Draw)

lemma Rect_placeImageOnCanvas:
  "placeImageOnCanvas src lg = (res, lg')
   \<Longrightarrow> \<exists>img. res = Inr img \<and> Rect img = Rectangle (Pt 0 0) (Pt 200 200)"
  by (auto simp add: placeImageOnCanvas_def Let_def draw_Draw_def Rect_DrawMask NewRGBA_def)

lemma Rect_addBorder:
  "addBorder env p c img lg = (Inr img', lg') \<Longrightarrow> Rect img' = Rect img"
  by (auto simp add: addBorder_def loadImage_eq Let_def draw_Draw_def Rect_DrawMask
      centerImageOnCanvas_def split: if_splits sum.splits prod.splits)

lemma Rect_addLevelBadge:
  "addLevelBadge env pos face tpos s img lg = (Inr img', lg') \<Longrightarrow> Rect img' = Rect img"
  by (auto simp add: addLevelBadge_def loadImage_eq Let_def draw_Draw_def drawText_def
      Rect_foldl_DrawMask Rect_DrawMask split: sum.splits)

lemma Rect_addZetaBadge:
  "addZetaBadge env p pos face tpos s img lg = (Inr img', lg') \<Longrightarrow> Rect img' = Rect img"
  by (auto simp add: addZetaBadge_def loadImage_eq Let_def draw_Draw_def drawText_def
      Rect_foldl_DrawMask Rect_DrawMask split: sum.splits if_splits)

lemma Rect_addOmicronBadge:
  "addOmicronBadge env p pos face tpos s img lg = (Inr img', lg') \<Longrightarrow> Rect img' = Rect img"
  by (auto simp add: addOmicronBadge_def loadImage_eq Let_def draw_Draw_def drawText_def
      Rect_foldl_DrawMask Rect_DrawMask split: sum.splits if_splits)

subsection \<open>The blocks of the builder\<close>

lemma loadFont_InrD:
  "loadFont env path sz lg = (Inr f, lg') \<Longrightarrow> font_of env path sz = Inr f \<and> lg' = lg @ [ReadFile path]"
  by (simp add: loadFont_eq)

lemma loadImage_InrD:
  "loadImage env path lg = (Inr i, lg') \<Longrightarrow> image_of env path = Inr i \<and> lg' = lg @ [Open path]"
  by (simp add: loadImage_eq)

lemma placeImageOnCanvas_InrD:
  "placeImageOnCanvas src lg = (Inr canvas, lg')
   \<Longrightarrow> Rect canvas = Rectangle (Pt 0 0) (Pt 200 200)
     \<and> lg' = lg @ [Draw (Rectangle (Pt 0 0) (Pt 200 200)) (Uniform Transparent) (Pt 0 0) Src,
                    Draw (Rect_Add (Bounds src)
                            (Pt_Div (Pt_Sub (Pt 200 200) (Rect_Size (Bounds src))) 2))
                      src (Min_p (Bounds src)) Over]"
  by (auto simp add: placeImageOnCanvas_def Let_def draw_Draw_def Rect_DrawMask NewRGBA_def)

lemma addBorder_InrD:
  "addBorder env p c img lg = (Inr img', lg')
   \<Longrightarrow> \<exists>b r sp. image_of env (border_path p c) = Inr b
         \<and> lg' = lg @ [Open (border_path p c), Draw r b sp Over]"
  by (auto simp add: addBorder_def border_path_def loadImage_eq Let_def draw_Draw_def
      centerImageOnCanvas_def split: if_splits sum.splits)

lemma Pt_In_Intersect: "Pt_In p (Intersect r s) \<Longrightarrow> Pt_In p r"
  by (auto simp add: Intersect_def Let_def Pt_In_def ZR_def split: if_splits)

lemma Pt_In_clip: "Pt_In p (clip dstb r srcb sp msk) \<Longrightarrow> Pt_In p r"
  by (auto simp add: clip_def Let_def split: option.splits dest!: Pt_In_Intersect)

lemma DrawMask_frame:
  "\<not> Pt_In (Pt x y) r \<Longrightarrow> Pix (DrawMask dst r src sp msk op) x y = Pix dst x y"
  using Pt_In_clip [of "Pt x y" "Rect dst" r "Bounds src" sp msk]
  by (auto simp add: DrawMask_def Let_def)

lemma drawText_frame:
  assumes "\<forall>g \<in> set (Glyphs face x0 y0 s). \<not> Pt_In (Pt x y) (glyph_dr g)"
  shows "Pix (fst (drawText img face x0 y0 s col lg)) x y = Pix img x y"
proof -
  have "\<And>img. \<forall>g \<in> set gs. \<not> Pt_In (Pt x y) (glyph_dr g)
      \<Longrightarrow> Pix (foldl (\<lambda>dst g. if Rect_Empty (glyph_dr g) then dst
                   else DrawMask dst (glyph_dr g) (Uniform col) (Pt 0 0)
                          (Some (glyph_mask g, glyph_maskp g)) Over) img gs) x y = Pix img x y"
    for gs :: "Glyph list"
    by (induction gs) (simp_all add: DrawMask_frame)
  with assms show ?thesis
    by (simp add: drawText_def)
qed

lemma touched_badge_events:
  "touched (badge_events path b pos face tpos s) x y
     \<longleftrightarrow> Pt_In (Pt x y) (Rect_Add (Bounds b) pos)
         \<or> (\<exists>g \<in> set (Glyphs face (X tpos) (Y tpos) s). Pt_In (Pt x y) (glyph_dr g))"
  by (auto simp add: touched_def badge_events_def list_ex_iff)

lemma touched_append: "touched (es @ fs) x y \<longleftrightarrow> touched es x y \<or> touched fs x y"
  by (auto simp add: touched_def list_ex_iff)

lemma badge_layer:
  assumes "draw_Draw img (Rect_Add (Bounds b) pos) b (Pt 0 0) Over l1 = (img1, l2)"
    and "drawText img1 face (X tpos) (Y tpos) s White l2 = (img2, l3)"
  shows "l3 = l1 @ tl (badge_events path b pos face tpos s)
       \<and> (\<forall>x y. \<not> touched (badge_events path b pos face tpos s) x y
             \<longrightarrow> Pix img2 x y = Pix img x y)"
proof -
  have i1: "img1 = DrawMask img (Rect_Add (Bounds b) pos) b (Pt 0 0) None Over"
    and "l2 = l1 @ [Draw (Rect_Add (Bounds b) pos) b (Pt 0 0) Over]"
    using assms(1) by (simp_all add: draw_Draw_def)
  moreover have i2: "img2 = fst (drawText img1 face (X tpos) (Y tpos) s White l2)"
    and "l3 = l2 @ [DrawString face (X tpos) (Y tpos) s White]"
    using assms(2) by (simp_all add: drawText_def)
  ultimately have "l3 = l1 @ tl (badge_events path b pos face tpos s)"
    by (simp add: badge_events_def)
  moreover have "Pix img2 x y = Pix img x y"
    if "\<not> touched (badge_events path b pos face tpos s) x y" for x y
    using that by (simp add: touched_badge_events i1 i2 drawText_frame DrawMask_frame)
  ultimately show ?thesis
    by blast
qed

lemma addLevelBadge_InrD:
  assumes "addLevelBadge env pos face tpos s img lg = (Inr img', lg')"
  shows "\<exists>lb. image_of env ''assets/badges/level.png'' = Inr lb
         \<and> lg' = lg @ badge_events ''assets/badges/level.png'' lb pos face tpos s"
  using assms
  by (auto simp add: addLevelBadge_def loadImage_eq Let_def draw_Draw_def drawText_def
      badge_events_def split: sum.splits)

lemma addZetaBadge_InrD:
  assumes "addZetaBadge env p pos face tpos s img lg = (Inr img', lg')"
  shows "(\<not> 0 < Zetas p \<and> img' = img \<and> lg' = lg)
       \<or> (0 < Zetas p
           \<and> (\<exists>zb. image_of env ''assets/badges/zeta.png'' = Inr zb
                \<and> lg' = lg @ badge_events ''assets/badges/zeta.png'' zb pos face tpos s
                \<and> (\<forall>x y. \<not> touched (badge_events ''assets/badges/zeta.png'' zb pos face tpos s) x y
                      \<longrightarrow> Pix img' x y = Pix img x y)))"
proof (cases "0 < Zetas p")
  case False
  with assms show ?thesis
    by (simp add: addZetaBadge_def)
next
  case True
  with assms obtain zb where zb: "image_of env ''assets/badges/zeta.png'' = Inr zb"
    by (cases "image_of env ''assets/badges/zeta.png''")
       (auto simp add: addZetaBadge_def loadImage_eq)
  obtain img1 l2 where d: "draw_Draw img (Rect_Add (Bounds zb) pos) zb (Pt 0 0) Over
                             (lg @ [Open ''assets/badges/zeta.png'']) = (img1, l2)"
    by (cases "draw_Draw img (Rect_Add (Bounds zb) pos) zb (Pt 0 0) Over
                 (lg @ [Open ''assets/badges/zeta.png''])") blast
  have t: "drawText img1 face (X tpos) (Y tpos) s White l2 = (img', lg')"
    using assms True zb d by (simp add: addZetaBadge_def loadImage_eq Let_def split: prod.splits)
  from badge_layer [OF d t, of "''assets/badges/zeta.png''"] True zb show ?thesis
    by (simp add: badge_events_def)
qed

lemma addOmicronBadge_InrD:
  assumes "addOmicronBadge env p pos face tpos s img lg = (Inr img', lg')"
  shows "(\<not> 0 < Omicrons p \<and> img' = img \<and> lg' = lg)
       \<or> (0 < Omicrons p
           \<and> (\<exists>ob. image_of env ''assets/badges/omicron.png'' = Inr ob
                \<and> lg' = lg @ badge_events ''assets/badges/omicron.png'' ob pos face tpos s
                \<and> (\<forall>x y. \<not> touched (badge_events ''assets/badges/omicron.png'' ob pos face tpos s) x y
                      \<longrightarrow> Pix img' x y = Pix img x y)))"
proof (cases "0 < Omicrons p")
  case False
  with assms show ?thesis
    by (simp add: addOmicronBadge_def)
next
  case True
  with assms obtain ob where ob: "image_of env ''assets/badges/omicron.png'' = Inr ob"
    by (cases "image_of env ''assets/badges/omicron.png''")
       (auto simp add: addOmicronBadge_def loadImage_eq)
  obtain img1 l2 where d: "draw_Draw img (Rect_Add (Bounds ob) pos) ob (Pt 0 0) Over
                             (lg @ [Open ''assets/badges/omicron.png'']) = (img1, l2)"
    by (cases "draw_Draw img (Rect_Add (Bounds ob) pos) ob (Pt 0 0) Over
                 (lg @ [Open ''assets/badges/omicron.png''])") blast
  have t: "drawText img1 face (X tpos) (Y tpos) s White l2 = (img', lg')"
    using assms True ob d by (simp add: addOmicronBadge_def loadImage_eq Let_def split: prod.splits)
  from badge_layer [OF d t, of "''assets/badges/omicron.png''"] True ob show ?thesis
    by (simp add: badge_events_def)
qed

lemma drawn_texts_append: "drawn_texts (es @ fs) = drawn_texts es @ drawn_texts fs"
  by (induction es rule: drawn_texts.induct) simp_all

lemma build_texts:
  assumes "fst (buildPortrait env p c []) = Inr img"
  shows "level_text (snd (buildPortrait env p c [])) = Some ''85''
       \<and> drawn_texts (snd (buildPortrait env p c []))
           = ''85'' # (if Zetas p > 0 then [Itoa (Zetas p)] else [])
                    @ (if Omicrons p > 0 then [Itoa (Omicrons p)] else [])"
proof -
  obtain lg where "buildPortrait env p c [] = (Inr img, lg)"
    using assms by (cases "buildPortrait env p c []") simp
  then show ?thesis
    unfolding buildPortrait_def Let_def
    apply simp
    apply (elim orReturn_InrE)
    apply (drule loadFont_InrD)
    apply (drule loadFont_InrD)
    apply (drule loadImage_InrD)
    apply (drule placeImageOnCanvas_InrD)
    apply (drule addBorder_InrD)
    apply (drule addLevelBadge_InrD)
    apply (drule addZetaBadge_InrD)
    apply (drule addOmicronBadge_InrD)
    apply (auto simp add: badge_events_def drawn_texts_append)
    done
qed

lemma orReturn_Inr: "orReturn (Inr v, lg) k = k v lg"
  by (simp add: orReturn_def)

lemma orReturn_assoc:
  "orReturn (orReturn m k) k' = orReturn m (\<lambda>v l. orReturn (k v l) k')"
  by (cases m) (auto simp add: orReturn_def split: sum.splits)

lemma Pt_In_Rect_In: "Pt_In p r \<Longrightarrow> Rect_In r s \<Longrightarrow> Pt_In p s"
  by (auto simp add: Pt_In_def Rect_In_def Rect_Empty_def)

lemma touched_regions:
  assumes "touched es x y"
    and "\<forall>r \<in> set (concat (map event_rects es)). Rect_In r s1 \<or> Rect_In r s2"
  shows "Pt_In (Pt x y) s1 \<or> Pt_In (Pt x y) s2"
  using assms by (auto simp add: touched_def list_ex_iff dest: Pt_In_Rect_In)

text \<open>
  A build is the build of the same request without badges, followed by the two badge
  blocks.
\<close>

lemma buildPortrait_badges:
  assumes "font_of env ''assets/fonts/Inter-Regular.ttf'' 18 = Inr fs"
  shows "buildPortrait env p c lg =
     orReturn (buildPortrait env (p\<lparr>Zetas := 0, Omicrons := 0\<rparr>) c lg) (\<lambda>img l.
     orReturn (addZetaBadge env p (Pt 18 100) fs
                 (Pt (18 + quo (60 - Measure fs (Itoa (Zetas p))) 2)
                     (100 + quo (60 + Ascent_Ceil fs) 2 - 4))
                 (Itoa (Zetas p)) img l) (\<lambda>img l.
     orReturn (addOmicronBadge env p (Pt 121 100) fs
                 (Pt (121 + quo (60 - Measure fs (Itoa (Omicrons p))) 2)
                     (100 + quo (60 + Ascent_Ceil fs) 2 - 4))
                 (Itoa (Omicrons p)) img l) (\<lambda>img l. (Inr img, l))))"
proof -
  let ?p0 = "p\<lparr>Zetas := 0, Omicrons := 0\<rparr>"
  have z: "\<And>pos face tpos s img l. addZetaBadge env ?p0 pos face tpos s img l = (Inr img, l)"
    by (simp add: addZetaBadge_def)
  have om: "\<And>pos face tpos s img l. addOmicronBadge env ?p0 pos face tpos s img l = (Inr img, l)"
    by (simp add: addOmicronBadge_def)
  have b: "\<And>img l. addBorder env ?p0 c img l = addBorder env p c img l"
    by (simp add: addBorder_def)
  show ?thesis
    unfolding buildPortrait_def Let_def
    by (simp add: loadFont_eq assms orReturn_Inr orReturn_assoc z om b)
qed


lemma build_font:
  assumes "fst (buildPortrait env p c lg) = Inr img"
  shows "\<exists>fs. font_of env ''assets/fonts/Inter-Regular.ttf'' 18 = Inr fs"
proof (cases "font_of env ''assets/fonts/Inter-Regular.ttf'' 18")
  case (Inl e)
  then have "fst (buildPortrait env p c lg) = Inl e"
    by (simp add: buildPortrait_def loadFont_eq orReturn_def)
  with assms show ?thesis
    by simp
next
  case (Inr fs)
  then show ?thesis
    by blast
qed

lemma tail_extends:
  "\<exists>es. snd (orReturn (addLevelBadge env pos fl tpos s img lg) (\<lambda>img l.
             orReturn (addZetaBadge env p zpos fs ztp zs img l) (\<lambda>img l.
             orReturn (addOmicronBadge env p opos fs otp os img l) (\<lambda>img l. (Inr img, l)))))
        = lg @ es"
proof -
  have "runs env lg
          ([LoadImage ''assets/badges/level.png'']
           @ (if Zetas p > 0 then [LoadImage ''assets/badges/zeta.png''] else [])
           @ (if Omicrons p > 0 then [LoadImage ''assets/badges/omicron.png''] else [])
           @ [])
          (orReturn (addLevelBadge env pos fl tpos s img lg) (\<lambda>img l.
             orReturn (addZetaBadge env p zpos fs ztp zs img l) (\<lambda>img l.
             orReturn (addOmicronBadge env p opos fs otp os img l) (\<lambda>img l. (Inr img, l)))))"
    by (intro runs_orReturn runs_addLevelBadge runs_addZetaBadge runs_addOmicronBadge runs_return)
  then show ?thesis
    by (auto simp add: runs_def)
qed

lemma addBorder_Inr:
  assumes "image_of env (border_path p c) = Inr b"
  shows "addBorder env p c canvas lg
     = (Inr (DrawMask canvas
               (if GearLevel p < 13
                then Rect_Add (Bounds b)
                       (Pt (quo (X (Rect_Size (Rect canvas)) - X (Rect_Size (Bounds b))) 2)
                           (quo (Y (Rect_Size (Rect canvas)) - Y (Rect_Size (Bounds b))) 2))
                else Rect canvas)
               b (if GearLevel p < 13 then Min_p (Bounds b) else Pt 0 0) None Over),
        lg @ [Open (border_path p c),
              Draw (if GearLevel p < 13
                    then Rect_Add (Bounds b)
                           (Pt (quo (X (Rect_Size (Rect canvas)) - X (Rect_Size (Bounds b))) 2)
                               (quo (Y (Rect_Size (Rect canvas)) - Y (Rect_Size (Bounds b))) 2))
                    else Rect canvas)
                b (if GearLevel p < 13 then Min_p (Bounds b) else Pt 0 0) Over])"
  using assms
  by (cases "GearLevel p < 13")
     (simp_all add: addBorder_def border_path_def loadImage_eq Let_def draw_Draw_def
        centerImageOnCanvas_def)

lemma build_border:
  assumes fs: "font_of env ''assets/fonts/Inter-Regular.ttf'' 18 = Inr fs"
    and fl: "font_of env ''assets/fonts/Inter-Regular.ttf'' 24 = Inr fl"
    and ci: "image_of env (''assets/characters/'' @ imgSrc c) = Inr ci"
    and b: "image_of env (border_path p c) = Inr b"
  shows "\<exists>canvas es.
           fst (placeImageOnCanvas ci []) = Inr canvas
         \<and> Rect canvas = Rectangle (Pt 0 0) (Pt 200 200)
         \<and> snd (buildPortrait env p c [])
             = [ReadFile ''assets/fonts/Inter-Regular.ttf'',
                ReadFile ''assets/fonts/Inter-Regular.ttf'',
                Open (''assets/characters/'' @ imgSrc c),
                Draw (Rectangle (Pt 0 0) (Pt 200 200)) (Uniform Transparent) (Pt 0 0) Src,
                Draw (Rect_Add (Bounds ci) (Pt_Div (Pt_Sub (Pt 200 200) (Rect_Size (Bounds ci))) 2))
                  ci (Min_p (Bounds ci)) Over]
               @ snd (addBorder env p c canvas []) @ es"
proof -
  obtain canvas where cv: "\<And>lg. placeImageOnCanvas ci lg
      = (Inr canvas,
         lg @ [Draw (Rectangle (Pt 0 0) (Pt 200 200)) (Uniform Transparent) (Pt 0 0) Src,
               Draw (Rect_Add (Bounds ci) (Pt_Div (Pt_Sub (Pt 200 200) (Rect_Size (Bounds ci))) 2))
                 ci (Min_p (Bounds ci)) Over])"
    and rc: "Rect canvas = Rectangle (Pt 0 0) (Pt 200 200)"
    by (simp add: placeImageOnCanvas_def Let_def draw_Draw_def Rect_DrawMask NewRGBA_def)
  let ?pre = "[ReadFile ''assets/fonts/Inter-Regular.ttf'',
                ReadFile ''assets/fonts/Inter-Regular.ttf'',
                Open (''assets/characters/'' @ imgSrc c),
                Draw (Rectangle (Pt 0 0) (Pt 200 200)) (Uniform Transparent) (Pt 0 0) Src,
                Draw (Rect_Add (Bounds ci) (Pt_Div (Pt_Sub (Pt 200 200) (Rect_Size (Bounds ci))) 2))
                  ci (Min_p (Bounds ci)) Over]"
  obtain canvas2 bes where ab: "\<And>lg. addBorder env p c canvas lg = (Inr canvas2, lg @ bes)"
    using addBorder_Inr [OF b] by blast
  have "\<exists>es. snd (buildPortrait env p c [])
            = ((((([] @ [ReadFile ''assets/fonts/Inter-Regular.ttf''])
                  @ [ReadFile ''assets/fonts/Inter-Regular.ttf''])
                 @ [Open (''assets/characters/'' @ imgSrc c)])
                @ [Draw (Rectangle (Pt 0 0) (Pt 200 200)) (Uniform Transparent) (Pt 0 0) Src,
                   Draw (Rect_Add (Bounds ci)
                           (Pt_Div (Pt_Sub (Pt 200 200) (Rect_Size (Bounds ci))) 2))
                     ci (Min_p (Bounds ci)) Over])
               @ bes) @ es"
    unfolding buildPortrait_def Let_def
    apply (simp only: loadFont_eq loadImage_eq fs fl ci cv ab orReturn_Inr)
    apply (rule tail_extends)
    done
  then show ?thesis
    using cv [of "[]"] rc ab [of "[]"] by simp
qed

lemma addLevelBadge_frame:
  assumes "addLevelBadge env pos face tpos s img lg = (Inr img', lg')"
  shows "\<exists>es. lg' = lg @ es \<and> (\<forall>x y. \<not> touched es x y \<longrightarrow> Pix img' x y = Pix img x y)"
proof -
  from assms obtain lb where lb: "image_of env ''assets/badges/level.png'' = Inr lb"
    by (cases "image_of env ''assets/badges/level.png''")
       (auto simp add: addLevelBadge_def loadImage_eq)
  obtain img1 l2 where d: "draw_Draw img (Rect_Add (Bounds lb) pos) lb (Pt 0 0) Over
                             (lg @ [Open ''assets/badges/level.png'']) = (img1, l2)"
    by (cases "draw_Draw img (Rect_Add (Bounds lb) pos) lb (Pt 0 0) Over
                 (lg @ [Open ''assets/badges/level.png''])") blast
  have t: "drawText img1 face (X tpos) (Y tpos) s White l2 = (img', lg')"
    using assms lb d by (simp add: addLevelBadge_def loadImage_eq Let_def split: prod.splits)
  from badge_layer [OF d t, of "''assets/badges/level.png''"] show ?thesis
    by (intro exI [of _ "badge_events ''assets/badges/level.png'' lb pos face tpos s"])
       (simp add: badge_events_def)
qed

lemma addZetaBadge_frame:
  assumes "addZetaBadge env p pos face tpos s img lg = (Inr img', lg')"
  shows "\<exists>es. lg' = lg @ es \<and> (\<forall>x y. \<not> touched es x y \<longrightarrow> Pix img' x y = Pix img x y)"
  using addZetaBadge_InrD [OF assms]
proof (elim disjE conjE exE)
  assume "img' = img" and "lg' = lg"
  then show ?thesis
    by (intro exI [of _ "[]"]) simp
next
  fix zb
  assume "lg' = lg @ badge_events ''assets/badges/zeta.png'' zb pos face tpos s"
    and "\<forall>x y. \<not> touched (badge_events ''assets/badges/zeta.png'' zb pos face tpos s) x y
             \<longrightarrow> Pix img' x y = Pix img x y"
  then show ?thesis
    by blast
qed

lemma addOmicronBadge_frame:
  assumes "addOmicronBadge env p pos face tpos s img lg = (Inr img', lg')"
  shows "\<exists>es. lg' = lg @ es \<and> (\<forall>x y. \<not> touched es x y \<longrightarrow> Pix img' x y = Pix img x y)"
  using addOmicronBadge_InrD [OF assms]
proof (elim disjE conjE exE)
  assume "img' = img" and "lg' = lg"
  then show ?thesis
    by (intro exI [of _ "[]"]) simp
next
  fix ob
  assume "lg' = lg @ badge_events ''assets/badges/omicron.png'' ob pos face tpos s"
    and "\<forall>x y. \<not> touched (badge_events ''assets/badges/omicron.png'' ob pos face tpos s) x y
             \<longrightarrow> Pix img' x y = Pix img x y"
  then show ?thesis
    by blast
qed

text \<open>
  The image a build returns is the canvas with the character image and the border,
  outside the rectangles drawn into after the border.
\<close>

lemma build_over_border:
  assumes fs: "font_of env ''assets/fonts/Inter-Regular.ttf'' 18 = Inr fs"
    and fl: "font_of env ''assets/fonts/Inter-Regular.ttf'' 24 = Inr fl"
    and ci: "image_of env (''assets/characters/'' @ imgSrc c) = Inr ci"
    and b: "image_of env (border_path p c) = Inr b"
    and ok: "fst (buildPortrait env p c []) = Inr img"
    and cv: "canvas = DrawMask
                (DrawMask (NewRGBA (Rectangle (Pt 0 0) (Pt 200 200)))
                   (Rectangle (Pt 0 0) (Pt 200 200)) (Uniform Transparent) (Pt 0 0) None Src)
                (Rect_Add (Bounds ci) (Pt_Div (Pt_Sub (Pt 200 200) (Rect_Size (Bounds ci))) 2))
                ci (Min_p (Bounds ci)) None Over"
  shows "\<forall>x y. \<not> touched (drop 7 (snd (buildPortrait env p c []))) x y
           \<longrightarrow> Pix img x y = Pix (DrawMask canvas
                   (if GearLevel p < 13
                    then Rect_Add (Bounds b)
                           (Pt (quo (200 - X (Rect_Size (Bounds b))) 2)
                               (quo (200 - Y (Rect_Size (Bounds b))) 2))
                    else Rectangle (Pt 0 0) (Pt 200 200))
                   b (if GearLevel p < 13 then Min_p (Bounds b) else Pt 0 0) None Over) x y"
proof -
  let ?bordered = "DrawMask canvas
                   (if GearLevel p < 13
                    then Rect_Add (Bounds b)
                           (Pt (quo (200 - X (Rect_Size (Bounds b))) 2)
                               (quo (200 - Y (Rect_Size (Bounds b))) 2))
                    else Rectangle (Pt 0 0) (Pt 200 200))
                   b (if GearLevel p < 13 then Min_p (Bounds b) else Pt 0 0) None Over"
  have pl: "\<And>lg. placeImageOnCanvas ci lg
      = (Inr canvas,
         lg @ [Draw (Rectangle (Pt 0 0) (Pt 200 200)) (Uniform Transparent) (Pt 0 0) Src,
               Draw (Rect_Add (Bounds ci) (Pt_Div (Pt_Sub (Pt 200 200) (Rect_Size (Bounds ci))) 2))
                 ci (Min_p (Bounds ci)) Over])"
    by (simp add: cv placeImageOnCanvas_def Let_def draw_Draw_def Rect_DrawMask NewRGBA_def
        Transparent_def)
  have rc: "Rect canvas = Rectangle (Pt 0 0) (Pt 200 200)"
    by (simp add: cv Rect_DrawMask NewRGBA_def)
  obtain bes where ab: "\<And>lg. addBorder env p c canvas lg = (Inr ?bordered, lg @ bes)"
    and len: "length bes = 2"
    using addBorder_Inr [OF b, of canvas] by (simp add: rc Rect_Size_def)
  obtain lg where built: "buildPortrait env p c [] = (Inr img, lg)"
    using ok by (cases "buildPortrait env p c []") simp
  let ?l7 = "((((([] @ [ReadFile ''assets/fonts/Inter-Regular.ttf''])
                  @ [ReadFile ''assets/fonts/Inter-Regular.ttf''])
                 @ [Open (''assets/characters/'' @ imgSrc c)])
                @ [Draw (Rectangle (Pt 0 0) (Pt 200 200)) (Uniform Transparent) (Pt 0 0) Src,
                   Draw (Rect_Add (Bounds ci)
                           (Pt_Div (Pt_Sub (Pt 200 200) (Rect_Size (Bounds ci))) 2))
                     ci (Min_p (Bounds ci)) Over])
               @ bes)"
  from built obtain i1 l1 i2 l2 lp zp zs op os
    where s1: "addLevelBadge env (Pt 75 128) fl lp ''85'' ?bordered ?l7 = (Inr i1, l1)"
      and s2: "addZetaBadge env p (Pt 18 100) fs zp zs i1 l1 = (Inr i2, l2)"
      and s3: "addOmicronBadge env p (Pt 121 100) fs op os i2 l2 = (Inr img, lg)"
    unfolding buildPortrait_def Let_def
    apply (simp only: loadFont_eq loadImage_eq fs fl ci pl ab orReturn_Inr)
    apply (elim orReturn_InrE)
    apply simp
    done
  from addLevelBadge_frame [OF s1] obtain e1 where e1: "l1 = ?l7 @ e1"
    and f1: "\<And>x y. \<not> touched e1 x y \<Longrightarrow> Pix i1 x y = Pix ?bordered x y"
    by blast
  from addZetaBadge_frame [OF s2] obtain e2 where e2: "l2 = l1 @ e2"
    and f2: "\<And>x y. \<not> touched e2 x y \<Longrightarrow> Pix i2 x y = Pix i1 x y"
    by blast
  from addOmicronBadge_frame [OF s3] obtain e3 where e3: "lg = l2 @ e3"
    and f3: "\<And>x y. \<not> touched e3 x y \<Longrightarrow> Pix img x y = Pix i2 x y"
    by blast
  have "drop 7 lg = e1 @ e2 @ e3"
    using e1 e2 e3 len by simp
  then have "Pix img x y = Pix ?bordered x y"
    if "\<not> touched (drop 7 (snd (buildPortrait env p c []))) x y" for x y
    using that f1 f2 f3 built by (simp add: touched_append)
  then show ?thesis
    by blast
qed

lemma Pix_DrawMask:
  "Pix (DrawMask dst r src sp None op) x y
     = (if Pt_In (Pt x y) (clip (Rect dst) r (Bounds src) sp None)
        then blend op (At src (X sp + (x - X (Min_p r))) (Y sp + (y - Y (Min_p r)))) 65535
               (Pix dst x y)
        else Pix dst x y)"
  by (auto simp add: DrawMask_def Let_def Pt_In_def Rect_Empty_def)

lemmas build_eval =
  buildPortrait_def orReturn_def loadFont_def loadImage_def example_env_def Let_def
  placeImageOnCanvas_def addBorder_def addLevelBadge_def addZetaBadge_def addOmicronBadge_def
  draw_Draw_def drawText_def centerImageOnCanvas_def example_face_def darth_vader_def solid_def

lemmas draw_eval =
  Pix_DrawMask Rect_DrawMask clip_def Intersect_def Rect_Empty_def Rect_Add_def Rect_Size_def
  Pt_Add_def Pt_Sub_def Pt_Div_def Pt_In_def ZR_def NewRGBA_def Uniform_def blend_def blend1_def
  quo_def White_def Transparent_def

subsection \<open>Validation of the query\<close>

text \<open>
  Claim C1. For a GET request with a known character: when \<open>gear_level\<close> is missing,
  empty, not a number, or a number outside 1 to 13, the handler answers 400 with the
  gear-level message, and its trace is empty: no file was read and nothing drawn, so the
  builder did not run. When \<open>gear_level\<close> is a number from 1 to 13, the handler's
  answer is not that rejection. On a writer with no status yet, \<open>http.Error\<close> sets the
  status it is given.
\<close>

theorem gear_level_validation:
  assumes "Method r = ''GET''"
    and "supportedCharacters (Values_Get (Query r) ''char'') = Some c"
  shows "((Query r ''gear_level'' = None
           \<or> (\<exists>v vs. Query r ''gear_level'' = Some (v # vs)
                 \<and> (v = [] \<or> (\<exists>e. Atoi v = Inl e) \<or> (\<exists>n. Atoi v = Inr n \<and> (n < 1 \<or> 13 < n)))))
          \<longrightarrow> createPortraitHandler env w r
                = Returns (http_Error w ''The gear_level must be between 1 and 13'' 400, []))
       \<and> ((\<exists>v vs n. Query r ''gear_level'' = Some (v # vs) \<and> Atoi v = Inr n \<and> 1 \<le> n \<and> n \<le> 13)
          \<longrightarrow> createPortraitHandler env w r
                \<noteq> Returns (http_Error w ''The gear_level must be between 1 and 13'' 400, []))
       \<and> (\<forall>msg code. Status w = None \<longrightarrow> Status (http_Error w msg code) = Some code)"
proof (intro conjI impI)
  show "\<forall>msg code. Status w = None \<longrightarrow> Status (http_Error w msg code) = Some code"
    by (simp add: Status_http_Error)
next
  assume bad: "Query r ''gear_level'' = None
           \<or> (\<exists>v vs. Query r ''gear_level'' = Some (v # vs)
                 \<and> (v = [] \<or> (\<exists>e. Atoi v = Inl e) \<or> (\<exists>n. Atoi v = Inr n \<and> (n < 1 \<or> 13 < n))))"
  then have "\<exists>g e. getIntFromQuery (Query r) ''gear_level'' = Returns (g, e) \<and> (e \<noteq> None \<or> g < 1 \<or> 13 < g)"
    by (auto simp add: getIntFromQuery_def Atoi_Nil)
  then show "createPortraitHandler env w r
                = Returns (http_Error w ''The gear_level must be between 1 and 13'' 400, [])"
    using assms by (auto simp add: createPortraitHandler_def Let_def)
next
  assume "\<exists>v vs n. Query r ''gear_level'' = Some (v # vs) \<and> Atoi v = Inr n \<and> 1 \<le> n \<and> n \<le> 13"
  then obtain n where g: "getIntFromQuery (Query r) ''gear_level'' = Returns (n, None)" "1 \<le> n" "n \<le> 13"
    using getInt_ok by blast
  show "createPortraitHandler env w r
                \<noteq> Returns (http_Error w ''The gear_level must be between 1 and 13'' 400, [])"
    using assms g
    by (auto simp add: createPortraitHandler_def Let_def respondPortrait_not_rejection
        split: outcome.splits prod.splits if_splits dest!: http_Error_msg_inject)
qed

theorem gear_level_validation_witness:
  "createPortraitHandler example_env NewResponseWriter (example_query ''14'' ''0'' ''0'' ''0'')
     = Returns (http_Error NewResponseWriter ''The gear_level must be between 1 and 13'' 400, [])
   \<and> createPortraitHandler example_env NewResponseWriter (example_query ''x'' ''0'' ''0'' ''0'')
     = Returns (http_Error NewResponseWriter ''The gear_level must be between 1 and 13'' 400, [])
   \<and> createPortraitHandler example_env NewResponseWriter (example_query '''' ''0'' ''0'' ''0'')
     = Returns (http_Error NewResponseWriter ''The gear_level must be between 1 and 13'' 400, [])
   \<and> createPortraitHandler example_env NewResponseWriter (example_query ''13'' ''5'' ''3'' ''1'')
     \<noteq> Returns (http_Error NewResponseWriter ''The gear_level must be between 1 and 13'' 400, [])
   \<and> Status (http_Error NewResponseWriter ''The gear_level must be between 1 and 13'' 400) = Some 400"
  using gear_level_validation [of "example_query ''14'' ''0'' ''0'' ''0''" darth_vader example_env NewResponseWriter]
    gear_level_validation [of "example_query ''x'' ''0'' ''0'' ''0''" darth_vader example_env NewResponseWriter]
    gear_level_validation [of "example_query '''' ''0'' ''0'' ''0''" darth_vader example_env NewResponseWriter]
    gear_level_validation [of "example_query ''13'' ''5'' ''3'' ''1''" darth_vader example_env NewResponseWriter]
  by (simp add: example_eval Status_http_Error NewResponseWriter_def)



text \<open>
  Claim C3. For a GET request with a known character whose \<open>gear_level\<close> and
  \<open>relic_level\<close> pass their checks: a parameter that is absent, empty or not a number
  reads as 0 (whatever the error), and 0 is within the character's maxima; \<open>zetas\<close>
  below 0 or above the character's maximum is answered 400 with a message that names the
  maximum, and so is \<open>omicrons\<close> once \<open>zetas\<close> is in range; with both in range, the
  bounds 0 and the maximum included, the answer is the builder's, for a portrait with
  these two values. On a writer with no status yet, \<open>http.Error\<close> sets the status it
  is given.
\<close>

theorem zetas_omicrons_validation:
  assumes "Method r = ''GET''"
    and "supportedCharacters (Values_Get (Query r) ''char'') = Some c"
    and "getIntFromQuery (Query r) ''gear_level'' = Returns (g, None)"
    and "1 \<le> g" and "g \<le> 13"
    and "getIntFromQuery (Query r) ''relic_level'' = Returns (rl, rerr)"
    and "g = 13 \<or> rl = 0 \<or> rerr \<noteq> None"
    and "g \<noteq> 13 \<or> (1 \<le> rl \<and> rl \<le> 9)"
  shows "(\<forall>key. Query r key = None
               \<or> (\<exists>v vs. Query r key = Some (v # vs) \<and> (v = [] \<or> (\<exists>e. Atoi v = Inl e)))
            \<longrightarrow> (\<exists>err. getIntFromQuery (Query r) key = Returns (0, err)))
       \<and> 0 \<le> maxZetas c \<and> 0 \<le> maxOmicrons c
       \<and> (\<forall>z zerr. getIntFromQuery (Query r) ''zetas'' = Returns (z, zerr) \<longrightarrow>
            (if z < 0 \<or> maxZetas c < z
             then createPortraitHandler env w r
                    = Returns (http_Error w (''The zeta level must be between 0 and ''
                        @ Itoa (maxZetas c) @ '' for '' @ Name c) 400, [])
             else (\<forall>om oerr. getIntFromQuery (Query r) ''omicrons'' = Returns (om, oerr) \<longrightarrow>
                    (if om < 0 \<or> maxOmicrons c < om
                     then createPortraitHandler env w r
                            = Returns (http_Error w (''The omicron level must be between 0 and ''
                                @ Itoa (maxOmicrons c) @ '' for '' @ Name c) 400, [])
                     else createPortraitHandler env w r
                            = Returns (respondPortrait env w
                                (buildPortrait env
                                   \<lparr>Character = Values_Get (Query r) ''char'', GearLevel = g,
                                    RelicLevel = rl, Zetas = z, Omicrons = om\<rparr> c []))))))
       \<and> (\<forall>msg code. Status w = None \<longrightarrow> Status (http_Error w msg code) = Some code)"
proof (intro conjI allI impI)
  fix key
  assume "Query r key = None
            \<or> (\<exists>v vs. Query r key = Some (v # vs) \<and> (v = [] \<or> (\<exists>e. Atoi v = Inl e)))"
  then show "\<exists>err. getIntFromQuery (Query r) key = Returns (0, err)"
    by (auto simp add: getIntFromQuery_def)
next
  show "0 \<le> maxZetas c" "0 \<le> maxOmicrons c"
    using known_character [OF assms(2)] by (simp_all add: darth_vader_def)
next
  fix z zerr
  assume z: "getIntFromQuery (Query r) ''zetas'' = Returns (z, zerr)"
  show "if z < 0 \<or> maxZetas c < z
        then createPortraitHandler env w r
               = Returns (http_Error w (''The zeta level must be between 0 and ''
                   @ Itoa (maxZetas c) @ '' for '' @ Name c) 400, [])
        else (\<forall>om oerr. getIntFromQuery (Query r) ''omicrons'' = Returns (om, oerr) \<longrightarrow>
               (if om < 0 \<or> maxOmicrons c < om
                then createPortraitHandler env w r
                       = Returns (http_Error w (''The omicron level must be between 0 and ''
                           @ Itoa (maxOmicrons c) @ '' for '' @ Name c) 400, [])
                else createPortraitHandler env w r
                       = Returns (respondPortrait env w
                           (buildPortrait env
                              \<lparr>Character = Values_Get (Query r) ''char'', GearLevel = g,
                               RelicLevel = rl, Zetas = z, Omicrons = om\<rparr> c []))))"
    using assms z by (auto simp add: createPortraitHandler_def Let_def)
next
  fix msg code
  assume "Status w = None"
  then show "Status (http_Error w msg code) = Some code"
    by (rule Status_http_Error)
qed

theorem zetas_omicrons_validation_witness:
  "createPortraitHandler example_env NewResponseWriter (example_query ''13'' ''5'' ''4'' ''0'')
     = Returns (http_Error NewResponseWriter
         ''The zeta level must be between 0 and 3 for Darth Vader'' 400, [])
   \<and> createPortraitHandler example_env NewResponseWriter (example_query ''13'' ''5'' ''3'' ''2'')
     = Returns (http_Error NewResponseWriter
         ''The omicron level must be between 0 and 1 for Darth Vader'' 400, [])
   \<and> createPortraitHandler example_env NewResponseWriter (example_query ''13'' ''5'' ''many'' [])
     = Returns (respondPortrait example_env NewResponseWriter
         (buildPortrait example_env
            \<lparr>Character = ''darth_vader'', GearLevel = 13, RelicLevel = 5, Zetas = 0,
             Omicrons = 0\<rparr> darth_vader []))
   \<and> createPortraitHandler example_env NewResponseWriter (example_query ''13'' ''5'' ''3'' ''1'')
     = Returns (respondPortrait example_env NewResponseWriter
         (buildPortrait example_env
            \<lparr>Character = ''darth_vader'', GearLevel = 13, RelicLevel = 5, Zetas = 3,
             Omicrons = 1\<rparr> darth_vader []))
   \<and> fst (respondPortrait example_env NewResponseWriter
         (buildPortrait example_env
            \<lparr>Character = ''darth_vader'', GearLevel = 13, RelicLevel = 5, Zetas = 0,
             Omicrons = 0\<rparr> darth_vader []))
     \<noteq> http_Error NewResponseWriter
         ''The zeta level must be between 0 and 3 for Darth Vader'' 400"
  using zetas_omicrons_validation [of "example_query ''13'' ''5'' ''4'' ''0''" darth_vader 13 5 None example_env NewResponseWriter]
    zetas_omicrons_validation [of "example_query ''13'' ''5'' ''3'' ''2''" darth_vader 13 5 None example_env NewResponseWriter]
    zetas_omicrons_validation [of "example_query ''13'' ''5'' ''many'' []" darth_vader 13 5 None example_env NewResponseWriter]
    zetas_omicrons_validation [of "example_query ''13'' ''5'' ''3'' ''1''" darth_vader 13 5 None example_env NewResponseWriter]
    example_response_ok [of "\<lparr>Character = ''darth_vader'', GearLevel = 13, RelicLevel = 5, Zetas = 0,
             Omicrons = 0\<rparr>" darth_vader]
    Status_http_Error [of NewResponseWriter
       "''The zeta level must be between 0 and 3 for Darth Vader''" 400]
  by (auto simp add: example_eval Itoa_eval NewResponseWriter_def)

text \<open>
  Claim C10. For a GET request with a known character and a gear level from 1 to 12, a
  \<open>relic_level\<close> that is present, not empty and not a number is not rejected:
  \<open>getIntFromQuery\<close> returns 0 with an error, the check for a relic level that
  should not be there needs the error to be nil, and so, with \<open>zetas\<close> and
  \<open>omicrons\<close> in range, the handler's answer is the builder's, for a portrait whose
  relic level is 0. When that build succeeds and the encoder reports no error, the answer
  has status 200 and the content type \<open>image/png\<close>.
\<close>

theorem relic_level_not_a_number:
  assumes "Method r = ''GET''"
    and "supportedCharacters (Values_Get (Query r) ''char'') = Some c"
    and "Query r ''gear_level'' = Some (gv # gvs)" and "Atoi gv = Inr g"
    and "1 \<le> g" and "g \<le> 12"
    and "Query r ''relic_level'' = Some (v # vs)" and "v \<noteq> []" and "Atoi v = Inl e"
    and "getIntFromQuery (Query r) ''zetas'' = Returns (z, zerr)"
    and "0 \<le> z" and "z \<le> maxZetas c"
    and "getIntFromQuery (Query r) ''omicrons'' = Returns (om, oerr)"
    and "0 \<le> om" and "om \<le> maxOmicrons c"
  shows "(\<exists>err. getIntFromQuery (Query r) ''relic_level'' = Returns (0, Some err))
       \<and> createPortraitHandler env w r
           = Returns (respondPortrait env w
               (buildPortrait env
                  \<lparr>Character = Values_Get (Query r) ''char'', GearLevel = g, RelicLevel = 0,
                   Zetas = z, Omicrons = om\<rparr> c []))
       \<and> (\<forall>img. fst (buildPortrait env
                        \<lparr>Character = Values_Get (Query r) ''char'', GearLevel = g, RelicLevel = 0,
                         Zetas = z, Omicrons = om\<rparr> c []) = Inr img
                 \<and> snd (png_Encode env img) = None \<and> Status w = None
              \<longrightarrow> (\<exists>w' lg. createPortraitHandler env w r = Returns (w', lg)
                     \<and> Status w' = Some 200
                     \<and> Header w' ''Content-Type'' = Some ''image/png''
                     \<and> Body w' = Body w @ fst (png_Encode env img)))"
proof -
  let ?p = "\<lparr>Character = Values_Get (Query r) ''char'', GearLevel = g, RelicLevel = 0,
             Zetas = z, Omicrons = om\<rparr>"
  have g: "getIntFromQuery (Query r) ''gear_level'' = Returns (g, None)"
    using assms(3,4) by (rule getInt_ok)
  obtain err where rl: "getIntFromQuery (Query r) ''relic_level'' = Returns (0, Some err)"
    using assms(7,8,9) by (simp add: getIntFromQuery_def)
  have h: "createPortraitHandler env w r
             = Returns (respondPortrait env w (buildPortrait env ?p c []))"
    using assms g rl by (simp add: createPortraitHandler_def Let_def)
  have ok: "\<exists>w' lg. createPortraitHandler env w r = Returns (w', lg)
                     \<and> Status w' = Some 200
                     \<and> Header w' ''Content-Type'' = Some ''image/png''
                     \<and> Body w' = Body w @ fst (png_Encode env img)"
    if "fst (buildPortrait env ?p c []) = Inr img \<and> snd (png_Encode env img) = None
        \<and> Status w = None" for img
  proof -
    from that have "Status (fst (respondPortrait env w (buildPortrait env ?p c []))) = Some 200
         \<and> Header (fst (respondPortrait env w (buildPortrait env ?p c []))) ''Content-Type''
             = Some ''image/png''
         \<and> Body (fst (respondPortrait env w (buildPortrait env ?p c [])))
             = Body w @ fst (png_Encode env img)"
      by (intro respondPortrait_ok) simp_all
    with h show ?thesis
      by (cases "respondPortrait env w (buildPortrait env ?p c [])") simp
  qed
  from rl h ok show ?thesis
    by blast
qed

theorem relic_level_not_a_number_witness:
  "\<exists>w lg. createPortraitHandler example_env NewResponseWriter (example_query ''5'' ''abc'' ''0'' ''0'')
             = Returns (w, lg)
           \<and> Status w = Some 200
           \<and> Header w ''Content-Type'' = Some ''image/png''
           \<and> Body w = ''PNG''"
proof -
  let ?r = "example_query ''5'' ''abc'' ''0'' ''0''"
  let ?p = "\<lparr>Character = Values_Get (Query ?r) ''char'', GearLevel = 5, RelicLevel = 0,
             Zetas = 0, Omicrons = 0\<rparr>"
  obtain img where b: "fst (buildPortrait example_env ?p darth_vader []) = Inr img"
    using example_build_succeeds by blast
  have e: "snd (png_Encode example_env img) = None" "fst (png_Encode example_env img) = ''PNG''"
    by (simp_all add: example_env_def)
  have "\<forall>img. fst (buildPortrait example_env ?p darth_vader []) = Inr img
              \<and> snd (png_Encode example_env img) = None \<and> Status NewResponseWriter = None
           \<longrightarrow> (\<exists>w' lg. createPortraitHandler example_env NewResponseWriter ?r = Returns (w', lg)
                  \<and> Status w' = Some 200
                  \<and> Header w' ''Content-Type'' = Some ''image/png''
                  \<and> Body w' = Body NewResponseWriter @ fst (png_Encode example_env img))"
    by (rule relic_level_not_a_number [THEN conjunct2, THEN conjunct2,
          of ?r darth_vader "''5''" "[]" 5 "''abc''" "[]" ErrSyntax 0 None 0 None])
       (simp_all add: example_eval)
  with b e show ?thesis
    by (simp add: NewResponseWriter_def)
qed

subsection \<open>The builder\<close>

text \<open>
  Claim C4. With the fonts and the character image loaded, the builder's trace starts
  with the two font reads, the character file, the clearing of the canvas and the
  character image drawn centred; the next file it opens is the border's. When the gear
  level is below 13 that file is \<open>assets/gear/\<close>, the gear level in decimal,
  \<open>.png\<close>, and the image is drawn with \<open>Over\<close> from its own origin into its bounds
  moved to the centre of the 200 by 200 canvas (Go's division by 2). When the gear level
  is 13 the file is \<open>assets/relics/\<close>, the character's affiliation, \<open>.png\<close>, and
  the image is drawn with \<open>Over\<close> from \<open>(0,0)\<close> into the canvas's full bounds. In
  both cases the canvas drawn onto is the cleared 200 by 200 canvas with the character
  image drawn \<open>Over\<close> it, and the image a successful build returns is that canvas
  with the border drawn \<open>Over\<close> it, at every pixel outside the rectangles the builder
  draws into after the border (those of the level, zeta and omicron badges and their
  texts).
\<close>

theorem border_layer:
  assumes "font_of env ''assets/fonts/Inter-Regular.ttf'' 18 = Inr fs"
    and "font_of env ''assets/fonts/Inter-Regular.ttf'' 24 = Inr fl"
    and "image_of env (''assets/characters/'' @ imgSrc c) = Inr ci"
  shows "\<exists>canvas.
           fst (placeImageOnCanvas ci []) = Inr canvas
         \<and> Rect canvas = Rectangle (Pt 0 0) (Pt 200 200)
         \<and> canvas = DrawMask
               (DrawMask (NewRGBA (Rectangle (Pt 0 0) (Pt 200 200)))
                  (Rectangle (Pt 0 0) (Pt 200 200)) (Uniform Transparent) (Pt 0 0) None Src)
               (Rect_Add (Bounds ci) (Pt_Div (Pt_Sub (Pt 200 200) (Rect_Size (Bounds ci))) 2))
               ci (Min_p (Bounds ci)) None Over
         \<and> (GearLevel p < 13 \<longrightarrow>
              (\<forall>b. image_of env (''assets/gear/'' @ Itoa (GearLevel p) @ ''.png'') = Inr b \<longrightarrow>
                 (\<exists>es. snd (buildPortrait env p c [])
                    = [ReadFile ''assets/fonts/Inter-Regular.ttf'',
                       ReadFile ''assets/fonts/Inter-Regular.ttf'',
                       Open (''assets/characters/'' @ imgSrc c),
                       Draw (Rectangle (Pt 0 0) (Pt 200 200)) (Uniform Transparent) (Pt 0 0) Src,
                       Draw (Rect_Add (Bounds ci)
                               (Pt_Div (Pt_Sub (Pt 200 200) (Rect_Size (Bounds ci))) 2))
                         ci (Min_p (Bounds ci)) Over,
                       Open (''assets/gear/'' @ Itoa (GearLevel p) @ ''.png''),
                       Draw (Rect_Add (Bounds b)
                               (Pt (quo (200 - X (Rect_Size (Bounds b))) 2)
                                   (quo (200 - Y (Rect_Size (Bounds b))) 2)))
                         b (Min_p (Bounds b)) Over]
                      @ es)
                 \<and> (\<forall>lg. fst (addBorder env p c canvas lg)
                       = Inr (DrawMask canvas
                                (Rect_Add (Bounds b)
                                   (Pt (quo (200 - X (Rect_Size (Bounds b))) 2)
                                       (quo (200 - Y (Rect_Size (Bounds b))) 2)))
                                b (Min_p (Bounds b)) None Over))
                 \<and> (\<forall>img. fst (buildPortrait env p c []) = Inr img \<longrightarrow>
                       (\<forall>x y. \<not> touched (drop 7 (snd (buildPortrait env p c []))) x y \<longrightarrow>
                          Pix img x y
                            = Pix (DrawMask canvas
                                     (Rect_Add (Bounds b)
                                        (Pt (quo (200 - X (Rect_Size (Bounds b))) 2)
                                            (quo (200 - Y (Rect_Size (Bounds b))) 2)))
                                     b (Min_p (Bounds b)) None Over) x y))))
         \<and> (GearLevel p = 13 \<longrightarrow>
              (\<forall>b. image_of env (''assets/relics/'' @ Affiliation c @ ''.png'') = Inr b \<longrightarrow>
                 (\<exists>es. snd (buildPortrait env p c [])
                    = [ReadFile ''assets/fonts/Inter-Regular.ttf'',
                       ReadFile ''assets/fonts/Inter-Regular.ttf'',
                       Open (''assets/characters/'' @ imgSrc c),
                       Draw (Rectangle (Pt 0 0) (Pt 200 200)) (Uniform Transparent) (Pt 0 0) Src,
                       Draw (Rect_Add (Bounds ci)
                               (Pt_Div (Pt_Sub (Pt 200 200) (Rect_Size (Bounds ci))) 2))
                         ci (Min_p (Bounds ci)) Over,
                       Open (''assets/relics/'' @ Affiliation c @ ''.png''),
                       Draw (Rectangle (Pt 0 0) (Pt 200 200)) b (Pt 0 0) Over]
                      @ es)
                 \<and> (\<forall>lg. fst (addBorder env p c canvas lg)
                       = Inr (DrawMask canvas (Rectangle (Pt 0 0) (Pt 200 200)) b (Pt 0 0)
                                None Over))
                 \<and> (\<forall>img. fst (buildPortrait env p c []) = Inr img \<longrightarrow>
                       (\<forall>x y. \<not> touched (drop 7 (snd (buildPortrait env p c []))) x y \<longrightarrow>
                          Pix img x y
                            = Pix (DrawMask canvas (Rectangle (Pt 0 0) (Pt 200 200)) b (Pt 0 0)
                                     None Over) x y))))"
proof -
  define canvas where "canvas = DrawMask
               (DrawMask (NewRGBA (Rectangle (Pt 0 0) (Pt 200 200)))
                  (Rectangle (Pt 0 0) (Pt 200 200)) (Uniform Transparent) (Pt 0 0) None Src)
               (Rect_Add (Bounds ci) (Pt_Div (Pt_Sub (Pt 200 200) (Rect_Size (Bounds ci))) 2))
               ci (Min_p (Bounds ci)) None Over"
  have cv: "fst (placeImageOnCanvas ci []) = Inr canvas"
    by (simp add: canvas_def placeImageOnCanvas_def Let_def draw_Draw_def NewRGBA_def
        Transparent_def)
  have rc: "Rect canvas = Rectangle (Pt 0 0) (Pt 200 200)"
    by (simp add: canvas_def Rect_DrawMask NewRGBA_def)
  have over: "Pix img x y
                = Pix (DrawMask canvas
                         (if GearLevel p < 13
                          then Rect_Add (Bounds b)
                                 (Pt (quo (200 - X (Rect_Size (Bounds b))) 2)
                                     (quo (200 - Y (Rect_Size (Bounds b))) 2))
                          else Rectangle (Pt 0 0) (Pt 200 200))
                         b (if GearLevel p < 13 then Min_p (Bounds b) else Pt 0 0) None Over) x y"
    if "image_of env (border_path p c) = Inr b"
      and "fst (buildPortrait env p c []) = Inr img"
      and "\<not> touched (drop 7 (snd (buildPortrait env p c []))) x y"
    for b img x y
    using build_over_border [OF assms that(1,2) canvas_def] that(3) by blast
  have main: "(\<exists>es. snd (buildPortrait env p c [])
                 = [ReadFile ''assets/fonts/Inter-Regular.ttf'',
                    ReadFile ''assets/fonts/Inter-Regular.ttf'',
                    Open (''assets/characters/'' @ imgSrc c),
                    Draw (Rectangle (Pt 0 0) (Pt 200 200)) (Uniform Transparent) (Pt 0 0) Src,
                    Draw (Rect_Add (Bounds ci)
                            (Pt_Div (Pt_Sub (Pt 200 200) (Rect_Size (Bounds ci))) 2))
                      ci (Min_p (Bounds ci)) Over]
                   @ snd (addBorder env p c canvas []) @ es)"
    if "image_of env (border_path p c) = Inr b" for b
    using build_border [OF assms that] cv by auto
  show ?thesis
  proof (intro exI [of _ canvas] conjI impI allI)
    show "fst (placeImageOnCanvas ci []) = Inr canvas"
      by (rule cv)
    show "Rect canvas = Rectangle (Pt 0 0) (Pt 200 200)"
      by (rule rc)
    show "canvas = DrawMask
               (DrawMask (NewRGBA (Rectangle (Pt 0 0) (Pt 200 200)))
                  (Rectangle (Pt 0 0) (Pt 200 200)) (Uniform Transparent) (Pt 0 0) None Src)
               (Rect_Add (Bounds ci) (Pt_Div (Pt_Sub (Pt 200 200) (Rect_Size (Bounds ci))) 2))
               ci (Min_p (Bounds ci)) None Over"
      by (rule canvas_def)
  next
    fix b
    assume g: "GearLevel p < 13"
      and "image_of env (''assets/gear/'' @ Itoa (GearLevel p) @ ''.png'') = Inr b"
    then have b: "image_of env (border_path p c) = Inr b"
      by (simp add: border_path_def)
    show "\<exists>es. snd (buildPortrait env p c [])
                    = [ReadFile ''assets/fonts/Inter-Regular.ttf'',
                       ReadFile ''assets/fonts/Inter-Regular.ttf'',
                       Open (''assets/characters/'' @ imgSrc c),
                       Draw (Rectangle (Pt 0 0) (Pt 200 200)) (Uniform Transparent) (Pt 0 0) Src,
                       Draw (Rect_Add (Bounds ci)
                               (Pt_Div (Pt_Sub (Pt 200 200) (Rect_Size (Bounds ci))) 2))
                         ci (Min_p (Bounds ci)) Over,
                       Open (''assets/gear/'' @ Itoa (GearLevel p) @ ''.png''),
                       Draw (Rect_Add (Bounds b)
                               (Pt (quo (200 - X (Rect_Size (Bounds b))) 2)
                                   (quo (200 - Y (Rect_Size (Bounds b))) 2)))
                         b (Min_p (Bounds b)) Over]
                      @ es"
      using main [OF b] g by (simp add: addBorder_Inr [OF b] rc Rect_Size_def border_path_def)
    fix lg
    show "fst (addBorder env p c canvas lg)
            = Inr (DrawMask canvas
                     (Rect_Add (Bounds b)
                        (Pt (quo (200 - X (Rect_Size (Bounds b))) 2)
                            (quo (200 - Y (Rect_Size (Bounds b))) 2)))
                     b (Min_p (Bounds b)) None Over)"
      using g by (simp add: addBorder_Inr [OF b] rc Rect_Size_def)
    fix img x y
    assume "fst (buildPortrait env p c []) = Inr img"
      and "\<not> touched (drop 7 (snd (buildPortrait env p c []))) x y"
    from over [OF b this] g
    show "Pix img x y
            = Pix (DrawMask canvas
                     (Rect_Add (Bounds b)
                        (Pt (quo (200 - X (Rect_Size (Bounds b))) 2)
                            (quo (200 - Y (Rect_Size (Bounds b))) 2)))
                     b (Min_p (Bounds b)) None Over) x y"
      by simp
  next
    fix b
    assume g: "GearLevel p = 13"
      and "image_of env (''assets/relics/'' @ Affiliation c @ ''.png'') = Inr b"
    then have b: "image_of env (border_path p c) = Inr b"
      by (simp add: border_path_def)
    show "\<exists>es. snd (buildPortrait env p c [])
                    = [ReadFile ''assets/fonts/Inter-Regular.ttf'',
                       ReadFile ''assets/fonts/Inter-Regular.ttf'',
                       Open (''assets/characters/'' @ imgSrc c),
                       Draw (Rectangle (Pt 0 0) (Pt 200 200)) (Uniform Transparent) (Pt 0 0) Src,
                       Draw (Rect_Add (Bounds ci)
                               (Pt_Div (Pt_Sub (Pt 200 200) (Rect_Size (Bounds ci))) 2))
                         ci (Min_p (Bounds ci)) Over,
                       Open (''assets/relics/'' @ Affiliation c @ ''.png''),
                       Draw (Rectangle (Pt 0 0) (Pt 200 200)) b (Pt 0 0) Over]
                      @ es"
      using main [OF b] g by (simp add: addBorder_Inr [OF b] rc border_path_def)
    fix lg
    show "fst (addBorder env p c canvas lg)
            = Inr (DrawMask canvas (Rectangle (Pt 0 0) (Pt 200 200)) b (Pt 0 0) None Over)"
      using g by (simp add: addBorder_Inr [OF b] rc)
    fix img x y
    assume "fst (buildPortrait env p c []) = Inr img"
      and "\<not> touched (drop 7 (snd (buildPortrait env p c []))) x y"
    from over [OF b this] g
    show "Pix img x y
            = Pix (DrawMask canvas (Rectangle (Pt 0 0) (Pt 200 200)) b (Pt 0 0) None Over) x y"
      by simp
  qed
qed

theorem border_layer_witness:
  "(\<exists>es. snd (buildPortrait example_env
              \<lparr>Character = ''darth_vader'', GearLevel = 5, RelicLevel = 0, Zetas = 0, Omicrons = 0\<rparr>
              darth_vader [])
          = [ReadFile ''assets/fonts/Inter-Regular.ttf'',
             ReadFile ''assets/fonts/Inter-Regular.ttf'',
             Open ''assets/characters/darth_vader.png'',
             Draw (Rectangle (Pt 0 0) (Pt 200 200)) (Uniform Transparent) (Pt 0 0) Src,
             Draw (Rectangle (Pt 99 99) (Pt 100 100)) (solid 1 1 Transparent) (Pt 0 0) Over,
             Open ''assets/gear/5.png'',
             Draw (Rectangle (Pt 99 99) (Pt 100 100)) (solid 1 1 Transparent) (Pt 0 0) Over]
            @ es)
   \<and> (\<exists>es. snd (buildPortrait example_env
              \<lparr>Character = ''darth_vader'', GearLevel = 13, RelicLevel = 5, Zetas = 0, Omicrons = 0\<rparr>
              darth_vader [])
          = [ReadFile ''assets/fonts/Inter-Regular.ttf'',
             ReadFile ''assets/fonts/Inter-Regular.ttf'',
             Open ''assets/characters/darth_vader.png'',
             Draw (Rectangle (Pt 0 0) (Pt 200 200)) (Uniform Transparent) (Pt 0 0) Src,
             Draw (Rectangle (Pt 99 99) (Pt 100 100)) (solid 1 1 Transparent) (Pt 0 0) Over,
             Open ''assets/relics/dark_side.png'',
             Draw (Rectangle (Pt 0 0) (Pt 200 200)) (solid 1 1 Transparent) (Pt 0 0) Over]
            @ es)
   \<and> pixel_of (buildPortrait example_env_border
         \<lparr>Character = ''darth_vader'', GearLevel = 5, RelicLevel = 0, Zetas = 0, Omicrons = 0\<rparr>
         darth_vader []) 10 20 = Some (255, 0, 0, 255)
   \<and> pixel_of (buildPortrait example_env_border
         \<lparr>Character = ''darth_vader'', GearLevel = 13, RelicLevel = 5, Zetas = 0, Omicrons = 0\<rparr>
         darth_vader []) 10 20 = Some (255, 0, 0, 255)"
proof -
  let ?p = "\<lparr>Character = ''darth_vader'', GearLevel = 5, RelicLevel = 0, Zetas = 0, Omicrons = 0\<rparr>"
  let ?q = "\<lparr>Character = ''darth_vader'', GearLevel = 13, RelicLevel = 5, Zetas = 0, Omicrons = 0\<rparr>"
  let ?red = "solid 200 200 (65535, 0, 0, 65535)"
  have traces: "(\<exists>es. snd (buildPortrait example_env ?p darth_vader [])
          = [ReadFile ''assets/fonts/Inter-Regular.ttf'',
             ReadFile ''assets/fonts/Inter-Regular.ttf'',
             Open ''assets/characters/darth_vader.png'',
             Draw (Rectangle (Pt 0 0) (Pt 200 200)) (Uniform Transparent) (Pt 0 0) Src,
             Draw (Rectangle (Pt 99 99) (Pt 100 100)) (solid 1 1 Transparent) (Pt 0 0) Over,
             Open ''assets/gear/5.png'',
             Draw (Rectangle (Pt 99 99) (Pt 100 100)) (solid 1 1 Transparent) (Pt 0 0) Over]
            @ es)
   \<and> (\<exists>es. snd (buildPortrait example_env ?q darth_vader [])
          = [ReadFile ''assets/fonts/Inter-Regular.ttf'',
             ReadFile ''assets/fonts/Inter-Regular.ttf'',
             Open ''assets/characters/darth_vader.png'',
             Draw (Rectangle (Pt 0 0) (Pt 200 200)) (Uniform Transparent) (Pt 0 0) Src,
             Draw (Rectangle (Pt 99 99) (Pt 100 100)) (solid 1 1 Transparent) (Pt 0 0) Over,
             Open ''assets/relics/dark_side.png'',
             Draw (Rectangle (Pt 0 0) (Pt 200 200)) (solid 1 1 Transparent) (Pt 0 0) Over]
            @ es)"
    using border_layer [of example_env example_face example_face darth_vader
            "solid 1 1 Transparent" ?p]
      border_layer [of example_env example_face example_face darth_vader
            "solid 1 1 Transparent" ?q]
    by (simp add: example_font_of example_image_of darth_vader_def Itoa_eval solid_def
        Rect_Add_def Pt_Add_def Pt_Div_def Pt_Sub_def Rect_Size_def quo_def)
  have fo: "font_of example_env_border path sz = Inr example_face" for path sz
    by (simp add: font_of_def loadFont_def example_env_border_def example_env_def)
  have io: "image_of example_env_border path
              = Inr (if path = ''assets/gear/5.png'' \<or> path = ''assets/relics/dark_side.png''
                     then ?red else solid 1 1 Transparent)" for path
    by (simp add: image_of_def loadImage_def example_env_border_def example_env_def)
  have ci: "image_of example_env_border (''assets/characters/'' @ imgSrc darth_vader)
              = Inr (solid 1 1 Transparent)"
    by (simp add: io darth_vader_def)
  have fe: "first_error example_env_border ls = None" for ls
  proof (induction ls)
    case Nil
    show ?case by simp
  next
    case (Cons l ls)
    have "load_error example_env_border l = None"
      by (cases l) (simp_all add: load_error_def fo io)
    with Cons show ?case by simp
  qed
  have ok: "\<exists>img. fst (buildPortrait example_env_border r darth_vader []) = Inr img" for r
    using runs_buildPortrait [of example_env_border "[]" r darth_vader]
    by (auto simp add: runs_def fe)
  have ev: "\<not> touched (drop 7 (snd (buildPortrait example_env_border ?p darth_vader []))) 10 20"
    "\<not> touched (drop 7 (snd (buildPortrait example_env_border ?q darth_vader []))) 10 20"
    by (simp_all add: build_eval example_env_border_def Itoa_eval touched_def Rect_Add_def
        Pt_Add_def Pt_In_def)
  obtain img where i: "fst (buildPortrait example_env_border ?p darth_vader []) = Inr img"
    using ok by blast
  obtain img' where i': "fst (buildPortrait example_env_border ?q darth_vader []) = Inr img'"
    using ok by blast
  let ?canvas = "DrawMask
               (DrawMask (NewRGBA (Rectangle (Pt 0 0) (Pt 200 200)))
                  (Rectangle (Pt 0 0) (Pt 200 200)) (Uniform Transparent) (Pt 0 0) None Src)
               (Rect_Add (Bounds (solid 1 1 Transparent))
                  (Pt_Div (Pt_Sub (Pt 200 200) (Rect_Size (Bounds (solid 1 1 Transparent)))) 2))
               (solid 1 1 Transparent) (Min_p (Bounds (solid 1 1 Transparent))) None Over"
  let ?gear = "DrawMask ?canvas
                 (Rect_Add (Bounds ?red)
                    (Pt (quo (200 - X (Rect_Size (Bounds ?red))) 2)
                        (quo (200 - Y (Rect_Size (Bounds ?red))) 2)))
                 ?red (Min_p (Bounds ?red)) None Over"
  let ?relic = "DrawMask ?canvas (Rectangle (Pt 0 0) (Pt 200 200)) ?red (Pt 0 0) None Over"
  have "Pix img 10 20 = Pix ?gear 10 20"
    using border_layer [OF fo fo ci, of ?p] i ev(1)
    by (simp add: io Itoa_eval)
  moreover have "Pix ?gear 10 20 = (255, 0, 0, 255)"
    by (simp add: draw_eval solid_def)
  moreover have "Pix img' 10 20 = Pix ?relic 10 20"
    using border_layer [OF fo fo ci, of ?q] i' ev(2)
    by (simp add: io darth_vader_def)
  moreover have "Pix ?relic 10 20 = (255, 0, 0, 255)"
    by (simp add: draw_eval solid_def)
  ultimately show ?thesis
    using traces i i' by (simp add: pixel_of_def)
qed

text \<open>
  Claim C5, as the claim states it, fails: the offset is not the floor of half the
  difference when the content is larger than the container by an odd amount. A 201 by 201
  image on the 200 by 200 canvas is drawn from \<open>(0,0)\<close>; the floor of \<open>-1/2\<close> is
  \<open>-1\<close>, which would draw it from \<open>(-1,-1)\<close>.
\<close>

theorem centering_floor_counterexample:
  "concat (map event_rects
      (snd (centerImageOnCanvas (solid 201 201 White) (NewRGBA (Rectangle (Pt 0 0) (Pt 200 200))) [])))
     = [Rectangle (Pt 0 0) (Pt 201 201)]
   \<and> concat (map event_rects (snd (placeImageOnCanvas (solid 201 201 White) [])))
     = [Rectangle (Pt 0 0) (Pt 200 200), Rectangle (Pt 0 0) (Pt 201 201)]
   \<and> Rect_Add (Bounds (solid 201 201 White)) (Pt ((200 - 201) div 2) ((200 - 201) div 2))
     = Rectangle (Pt (- 1) (- 1)) (Pt 200 200)"
  by (simp add: centerImageOnCanvas_def placeImageOnCanvas_def Let_def draw_Draw_def solid_def
      NewRGBA_def Rect_Size_def Rect_Add_def Pt_Add_def Pt_Sub_def Pt_Div_def quo_def)

text \<open>
  Claim C5, amended. On each axis on its own, the centring offset is the difference of
  the sizes divided by 2 with Go's integer division, which truncates towards zero: the
  floor of half the difference when the content is not larger than the container or the
  difference is even, and that floor plus one when the content is larger by an odd
  amount.
\<close>

theorem centering_truncates:
  "snd (centerImageOnCanvas src dest lg)
     = lg @ [Draw (Rect_Add (Bounds src)
                     (Pt (centred (X (Rect_Size (Rect dest))) (X (Rect_Size (Bounds src))))
                         (centred (Y (Rect_Size (Rect dest))) (Y (Rect_Size (Bounds src))))))
               src (Min_p (Bounds src)) Over]
   \<and> snd (placeImageOnCanvas src lg)
     = lg @ [Draw (Rectangle (Pt 0 0) (Pt 200 200)) (Uniform Transparent) (Pt 0 0) Src,
             Draw (Rect_Add (Bounds src)
                     (Pt (centred 200 (X (Rect_Size (Bounds src))))
                         (centred 200 (Y (Rect_Size (Bounds src))))))
               src (Min_p (Bounds src)) Over]
   \<and> (\<forall>container content.
         content \<le> container \<or> even (container - content)
         \<longrightarrow> centred container content = (container - content) div 2)
   \<and> (\<forall>container content.
         container < content \<and> odd (container - content)
         \<longrightarrow> centred container content = (container - content) div 2 + 1)"
proof -
  have q: "quo d 2 = (if d < 0 \<and> odd d then d div 2 + 1 else d div 2)" for d :: int
    by (auto simp add: quo_def elim!: oddE)
  have z: "centred a b = quo (a - b) 2" for a b
    by (simp add: centred_def Let_def q)
  have c1: "centred a b = (a - b) div 2" if "b \<le> a \<or> even (a - b)" for a b
    using that by (auto simp add: centred_def Let_def)
  have c2: "centred a b = (a - b) div 2 + 1" if "a < b \<and> odd (a - b)" for a b
    using that by (auto simp add: centred_def Let_def)
  show ?thesis
    using c1 c2
    by (simp add: centerImageOnCanvas_def placeImageOnCanvas_def Let_def draw_Draw_def z
        Pt_Div_def Pt_Sub_def NewRGBA_def Rect_Size_def)
qed

theorem centering_truncates_witness:
  "concat (map event_rects
      (snd (centerImageOnCanvas (solid 100 50 White) (NewRGBA (Rectangle (Pt 0 0) (Pt 200 200))) [])))
     = [Rectangle (Pt 50 75) (Pt 150 125)]
   \<and> centred 200 100 = (200 - 100) div 2
   \<and> centred 200 203 = (200 - 203) div 2 + 1"
  using centering_truncates [of "solid 100 50 White" "NewRGBA (Rectangle (Pt 0 0) (Pt 200 200))" "[]"]
  by (simp add: solid_def NewRGBA_def Rect_Size_def Rect_Add_def Pt_Add_def)

text \<open>
  Claim C6. The builder returns an error exactly when a load step of the request fails,
  and the error is that of the first step that fails; it returns an image exactly when
  every load step succeeds (a result is an error or an image, never both). The files it
  loads are the attempted steps, in order, and when it fails the failed load is the last
  event of its trace: nothing is loaded or drawn after it. For a request the handler
  accepts, a failed build is answered with status 500 and the message
  \<open>Failed to create portrait: \<close> followed by the error.
\<close>

theorem build_fails_fast:
  "(\<forall>e. fst (buildPortrait env p c lg) = Inl e \<longleftrightarrow> first_error env (load_steps p c) = Some e)
   \<and> ((\<exists>img. fst (buildPortrait env p c lg) = Inr img)
        \<longleftrightarrow> list_all (\<lambda>l. load_error env l = None) (load_steps p c))
   \<and> (\<exists>es. snd (buildPortrait env p c lg) = lg @ es
          \<and> filter is_load es = map load_event (attempted env (load_steps p c))
          \<and> ((\<exists>e. fst (buildPortrait env p c lg) = Inl e) \<longrightarrow> es \<noteq> [] \<and> is_load (last es)))
   \<and> (\<forall>r w e. accepts r c p \<and> first_error env (load_steps p c) = Some e
          \<longrightarrow> createPortraitHandler env w r
                = Returns (http_Error w (''Failed to create portrait: '' @ e) 500,
                           snd (buildPortrait env p c []))
              \<and> (Status w = None
                   \<longrightarrow> Status (http_Error w (''Failed to create portrait: '' @ e) 500) = Some 500))"
proof -
  have run: "\<And>lg. runs env lg (load_steps p c) (buildPortrait env p c lg)"
    by (rule runs_buildPortrait)
  have a: "\<forall>e. fst (buildPortrait env p c lg) = Inl e \<longleftrightarrow> first_error env (load_steps p c) = Some e"
    using run [of lg] by (auto simp add: runs_def split: option.splits)
  have b: "(\<exists>img. fst (buildPortrait env p c lg) = Inr img)
        \<longleftrightarrow> list_all (\<lambda>l. load_error env l = None) (load_steps p c)"
    using run [of lg] first_error_None_iff [of env "load_steps p c"]
    by (auto simp add: runs_def split: option.splits)
  have c: "\<exists>es. snd (buildPortrait env p c lg) = lg @ es
          \<and> filter is_load es = map load_event (attempted env (load_steps p c))
          \<and> ((\<exists>e. fst (buildPortrait env p c lg) = Inl e) \<longrightarrow> es \<noteq> [] \<and> is_load (last es))"
    using run [of lg] by (auto simp add: runs_def split: option.splits)
  have d: "\<forall>r w e. accepts r c p \<and> first_error env (load_steps p c) = Some e
          \<longrightarrow> createPortraitHandler env w r
                = Returns (http_Error w (''Failed to create portrait: '' @ e) 500,
                           snd (buildPortrait env p c []))
              \<and> (Status w = None
                   \<longrightarrow> Status (http_Error w (''Failed to create portrait: '' @ e) 500) = Some 500)"
  proof (intro allI impI)
    fix r w e
    assume h: "accepts r c p \<and> first_error env (load_steps p c) = Some e"
    then have "fst (buildPortrait env p c []) = Inl e"
      using run [of "[]"] by (auto simp add: runs_def)
    then have "respondPortrait env w (buildPortrait env p c [])
                 = (http_Error w (''Failed to create portrait: '' @ e) 500,
                    snd (buildPortrait env p c []))"
      by (cases "buildPortrait env p c []") (simp add: respondPortrait_def)
    moreover have "createPortraitHandler env w r
                     = Returns (respondPortrait env w (buildPortrait env p c []))"
      using h by (simp add: handler_accepts)
    ultimately show "createPortraitHandler env w r
                = Returns (http_Error w (''Failed to create portrait: '' @ e) 500,
                           snd (buildPortrait env p c []))
              \<and> (Status w = None
                   \<longrightarrow> Status (http_Error w (''Failed to create portrait: '' @ e) 500) = Some 500)"
      by (simp add: Status_http_Error)
  qed
  from a b c d show ?thesis
    by blast
qed

theorem build_fails_fast_witness:
  "fst (buildPortrait example_env_no_level
          \<lparr>Character = ''darth_vader'', GearLevel = 13, RelicLevel = 5, Zetas = 3, Omicrons = 1\<rparr>
          darth_vader [])
     = Inl ''open assets/badges/level.png: no such file or directory''
   \<and> createPortraitHandler example_env_no_level NewResponseWriter
        (example_query ''13'' ''5'' ''3'' ''1'')
     = Returns (http_Error NewResponseWriter
         ''Failed to create portrait: open assets/badges/level.png: no such file or directory'' 500,
         snd (buildPortrait example_env_no_level
          \<lparr>Character = ''darth_vader'', GearLevel = 13, RelicLevel = 5, Zetas = 3, Omicrons = 1\<rparr>
          darth_vader []))
   \<and> (\<exists>img. fst (buildPortrait example_env
          \<lparr>Character = ''darth_vader'', GearLevel = 13, RelicLevel = 5, Zetas = 3, Omicrons = 1\<rparr>
          darth_vader []) = Inr img)"
proof -
  let ?p = "\<lparr>Character = ''darth_vader'', GearLevel = 13, RelicLevel = 5, Zetas = 3, Omicrons = 1\<rparr>"
  have fe: "first_error example_env_no_level (load_steps ?p darth_vader)
              = Some ''open assets/badges/level.png: no such file or directory''"
    by (simp add: load_steps_def load_error_def font_of_def image_of_def loadFont_def
        loadImage_def example_env_no_level_def example_env_def border_path_def darth_vader_def)
  have acc: "accepts (example_query ''13'' ''5'' ''3'' ''1'') darth_vader ?p"
    by (simp add: accepts_def example_eval)
  have ok: "list_all (\<lambda>l. load_error example_env l = None) (load_steps ?p darth_vader)"
    using example_first_error first_error_None_iff by blast
  have one: "fst (buildPortrait example_env_no_level ?p darth_vader [])
               = Inl ''open assets/badges/level.png: no such file or directory''"
    using build_fails_fast [of example_env_no_level ?p darth_vader "[]"] fe by simp
  have two: "createPortraitHandler example_env_no_level NewResponseWriter
        (example_query ''13'' ''5'' ''3'' ''1'')
     = Returns (http_Error NewResponseWriter
         ''Failed to create portrait: open assets/badges/level.png: no such file or directory'' 500,
         snd (buildPortrait example_env_no_level ?p darth_vader []))"
    using build_fails_fast [of example_env_no_level ?p darth_vader "[]"] fe acc by simp
  have three: "\<exists>img. fst (buildPortrait example_env ?p darth_vader []) = Inr img"
    using build_fails_fast [of example_env ?p darth_vader "[]"] ok by simp
  from one two three show ?thesis
    by simp
qed

text \<open>
  Claim C7. Whatever the loaded images and fonts are, the image of a successful build
  has the bounds \<open>(0,0)-(200,200)\<close>: the canvas is allocated with them, and no drawing
  call changes the bounds of its destination.
\<close>

theorem canvas_bounds:
  assumes "fst (buildPortrait env p c lg) = Inr img"
  shows "Rect img = Rectangle (Pt 0 0) (Pt 200 200) \<and> Rect_Size (Rect img) = Pt 200 200"
proof -
  obtain lg' where "buildPortrait env p c lg = (Inr img, lg')"
    using assms by (cases "buildPortrait env p c lg") simp
  then have "Rect img = Rectangle (Pt 0 0) (Pt 200 200)"
    unfolding buildPortrait_def Let_def
    apply (elim orReturn_InrE)
    apply (drule Rect_placeImageOnCanvas)
    apply (drule Rect_addBorder)
    apply (drule Rect_addLevelBadge)
    apply (drule Rect_addZetaBadge)
    apply (drule Rect_addOmicronBadge)
    apply auto
    done
  then show ?thesis
    by (simp add: Rect_Size_def)
qed

theorem canvas_bounds_witness:
  "\<exists>img. fst (buildPortrait example_env
             \<lparr>Character = ''darth_vader'', GearLevel = 13, RelicLevel = 5, Zetas = 3, Omicrons = 1\<rparr>
             darth_vader []) = Inr img
         \<and> Rect img = Rectangle (Pt 0 0) (Pt 200 200)"
proof -
  obtain img where h: "fst (buildPortrait example_env
             \<lparr>Character = ''darth_vader'', GearLevel = 13, RelicLevel = 5, Zetas = 3, Omicrons = 1\<rparr>
             darth_vader []) = Inr img"
    using example_build_succeeds by blast
  from canvas_bounds [OF h] h show ?thesis
    by blast
qed

text \<open>
  Claim C8, as the claim states it, fails: the badge is drawn into its own bounds moved
  to \<open>(18,100)\<close>, whatever its size. With a zeta badge file of 100 by 100 opaque white
  pixels, the pixel \<open>(100,150)\<close>, which lies in neither 60 by 60 region, is transparent
  for \<open>zetas=0\<close> and white for \<open>zetas=1\<close>.
\<close>

theorem badge_region_counterexample:
  "pixel_of (buildPortrait example_env
       \<lparr>Character = ''darth_vader'', GearLevel = 13, RelicLevel = 5, Zetas = 0, Omicrons = 0\<rparr>
       darth_vader []) 100 150 = Some (0, 0, 0, 0)
   \<and> pixel_of (buildPortrait example_env
       \<lparr>Character = ''darth_vader'', GearLevel = 13, RelicLevel = 5, Zetas = 1, Omicrons = 0\<rparr>
       darth_vader []) 100 150 = Some (255, 255, 255, 255)
   \<and> \<not> Pt_In (Pt 100 150) (Rectangle (Pt 18 100) (Pt 78 160))
   \<and> \<not> Pt_In (Pt 100 150) (Rectangle (Pt 121 100) (Pt 181 160))"
  by (simp add: pixel_of_def build_eval draw_eval)

text \<open>
  Claim C8, amended. Take a request with zetas above 0 and the same request with zetas
  and omicrons set to 0, both built successfully from the same files. The second draws
  one text, the level, and loads the fonts, the character, the border and the level badge
  only. The trace of the first is the trace of the second followed by the zeta badge
  layer (its file, the image drawn into its bounds moved by \<open>(18,100)\<close>, its count)
  and, when omicrons is above 0, the omicron badge layer at \<open>(121,100)\<close>. The two
  images agree on every pixel outside the rectangles these layers draw into: the moved
  bounds of the badge images and the glyph rectangles of the counts. When all these
  rectangles lie in the 60 by 60 regions at \<open>(18,100)\<close> and \<open>(121,100)\<close>, the images
  agree on every pixel outside the two regions.
\<close>

theorem badge_layers_frame:
  assumes z: "0 < Zetas p"
    and A: "fst (buildPortrait env (p\<lparr>Zetas := 0, Omicrons := 0\<rparr>) c []) = Inr imgA"
    and B: "fst (buildPortrait env p c []) = Inr imgB"
  shows "drawn_texts (snd (buildPortrait env (p\<lparr>Zetas := 0, Omicrons := 0\<rparr>) c [])) = [''85'']
       \<and> filter is_load (snd (buildPortrait env (p\<lparr>Zetas := 0, Omicrons := 0\<rparr>) c []))
           = [ReadFile ''assets/fonts/Inter-Regular.ttf'',
              ReadFile ''assets/fonts/Inter-Regular.ttf'',
              Open (''assets/characters/'' @ imgSrc c),
              Open (border_path p c),
              Open ''assets/badges/level.png'']
       \<and> (\<exists>fs zb zp oes.
             font_of env ''assets/fonts/Inter-Regular.ttf'' 18 = Inr fs
           \<and> snd (buildPortrait env p c [])
               = snd (buildPortrait env (p\<lparr>Zetas := 0, Omicrons := 0\<rparr>) c [])
                 @ badge_events ''assets/badges/zeta.png'' zb (Pt 18 100) fs zp (Itoa (Zetas p))
                 @ oes
           \<and> image_of env ''assets/badges/zeta.png'' = Inr zb
           \<and> (if 0 < Omicrons p
               then \<exists>ob op. image_of env ''assets/badges/omicron.png'' = Inr ob
                      \<and> oes = badge_events ''assets/badges/omicron.png'' ob (Pt 121 100) fs op
                                (Itoa (Omicrons p))
               else oes = [])
           \<and> (\<forall>x y. \<not> touched (badge_events ''assets/badges/zeta.png'' zb (Pt 18 100) fs zp
                                    (Itoa (Zetas p)) @ oes) x y
                   \<longrightarrow> Pix imgB x y = Pix imgA x y)
           \<and> ((\<forall>r \<in> set (concat (map event_rects
                          (badge_events ''assets/badges/zeta.png'' zb (Pt 18 100) fs zp
                             (Itoa (Zetas p)) @ oes))).
                   Rect_In r (Rectangle (Pt 18 100) (Pt 78 160))
                   \<or> Rect_In r (Rectangle (Pt 121 100) (Pt 181 160)))
                \<longrightarrow> (\<forall>x y. \<not> Pt_In (Pt x y) (Rectangle (Pt 18 100) (Pt 78 160))
                           \<and> \<not> Pt_In (Pt x y) (Rectangle (Pt 121 100) (Pt 181 160))
                       \<longrightarrow> Pix imgB x y = Pix imgA x y)))"
proof -
  let ?p0 = "p\<lparr>Zetas := 0, Omicrons := 0\<rparr>"
  obtain fs where fs: "font_of env ''assets/fonts/Inter-Regular.ttf'' 18 = Inr fs"
    using build_font [OF B] by blast
  obtain lgA where a: "buildPortrait env ?p0 c [] = (Inr imgA, lgA)"
    using A by (cases "buildPortrait env ?p0 c []") simp
  obtain lgB where b: "buildPortrait env p c [] = (Inr imgB, lgB)"
    using B by (cases "buildPortrait env p c []") simp
  let ?zp = "Pt (18 + quo (60 - Measure fs (Itoa (Zetas p))) 2)
                (100 + quo (60 + Ascent_Ceil fs) 2 - 4)"
  let ?op = "Pt (121 + quo (60 - Measure fs (Itoa (Omicrons p))) 2)
                (100 + quo (60 + Ascent_Ceil fs) 2 - 4)"
  from b obtain img1 l1
    where s1: "addZetaBadge env p (Pt 18 100) fs ?zp (Itoa (Zetas p)) imgA lgA = (Inr img1, l1)"
      and s2: "addOmicronBadge env p (Pt 121 100) fs ?op (Itoa (Omicrons p)) img1 l1
                 = (Inr imgB, lgB)"
    unfolding buildPortrait_badges [OF fs, of p c "[]"] a orReturn_Inr
    by (elim orReturn_InrE) simp
  from addZetaBadge_InrD [OF s1] z obtain zb
    where zb: "image_of env ''assets/badges/zeta.png'' = Inr zb"
      and l1: "l1 = lgA @ badge_events ''assets/badges/zeta.png'' zb (Pt 18 100) fs ?zp (Itoa (Zetas p))"
      and f1: "\<And>x y. \<not> touched (badge_events ''assets/badges/zeta.png'' zb (Pt 18 100) fs ?zp
                                  (Itoa (Zetas p))) x y \<Longrightarrow> Pix img1 x y = Pix imgA x y"
    by auto
  let ?zes = "badge_events ''assets/badges/zeta.png'' zb (Pt 18 100) fs ?zp (Itoa (Zetas p))"
  have "\<exists>oes. lgB = l1 @ oes
          \<and> (if 0 < Omicrons p
               then \<exists>ob op. image_of env ''assets/badges/omicron.png'' = Inr ob
                      \<and> oes = badge_events ''assets/badges/omicron.png'' ob (Pt 121 100) fs op
                                (Itoa (Omicrons p))
               else oes = [])
          \<and> (\<forall>x y. \<not> touched oes x y \<longrightarrow> Pix imgB x y = Pix img1 x y)"
  proof (cases "0 < Omicrons p")
    case True
    with addOmicronBadge_InrD [OF s2] obtain ob
      where ob: "image_of env ''assets/badges/omicron.png'' = Inr ob"
        and l: "lgB = l1 @ badge_events ''assets/badges/omicron.png'' ob (Pt 121 100) fs ?op
                           (Itoa (Omicrons p))"
        and f: "\<forall>x y. \<not> touched (badge_events ''assets/badges/omicron.png'' ob (Pt 121 100) fs ?op
                                   (Itoa (Omicrons p))) x y \<longrightarrow> Pix imgB x y = Pix img1 x y"
      by auto
    have e: "\<exists>oba op. image_of env ''assets/badges/omicron.png'' = Inr oba
               \<and> badge_events ''assets/badges/omicron.png'' ob (Pt 121 100) fs ?op
                     (Itoa (Omicrons p))
                   = badge_events ''assets/badges/omicron.png'' oba (Pt 121 100) fs op
                       (Itoa (Omicrons p))"
      using ob by blast
    show ?thesis
      using True l f e
      apply -
      apply (rule exI [of _ "badge_events ''assets/badges/omicron.png'' ob (Pt 121 100) fs ?op
                               (Itoa (Omicrons p))"])
      apply (simp only: if_True simp_thms)
      done
  next
    case False
    with addOmicronBadge_InrD [OF s2] have "imgB = img1" and "lgB = l1"
      by auto
    with False show ?thesis
      by simp
  qed
  then obtain oes where lgB: "lgB = l1 @ oes"
    and oes: "if 0 < Omicrons p
               then \<exists>ob op. image_of env ''assets/badges/omicron.png'' = Inr ob
                      \<and> oes = badge_events ''assets/badges/omicron.png'' ob (Pt 121 100) fs op
                                (Itoa (Omicrons p))
               else oes = []"
    and f2: "\<And>x y. \<not> touched oes x y \<Longrightarrow> Pix imgB x y = Pix img1 x y"
    by blast
  have frame: "Pix imgB x y = Pix imgA x y" if "\<not> touched (?zes @ oes) x y" for x y
    using that f1 f2 by (simp add: touched_append)
  have texts: "drawn_texts (snd (buildPortrait env ?p0 c [])) = [''85'']"
    using build_texts [OF A] by simp
  have regions: "Pix imgB x y = Pix imgA x y"
    if "\<forall>r \<in> set (concat (map event_rects (?zes @ oes))).
          Rect_In r (Rectangle (Pt 18 100) (Pt 78 160))
          \<or> Rect_In r (Rectangle (Pt 121 100) (Pt 181 160))"
      and "\<not> Pt_In (Pt x y) (Rectangle (Pt 18 100) (Pt 78 160))
           \<and> \<not> Pt_In (Pt x y) (Rectangle (Pt 121 100) (Pt 181 160))"
    for x y
    using that touched_regions [of "?zes @ oes" x y] frame by blast
  have loads: "filter is_load (snd (buildPortrait env ?p0 c []))
           = [ReadFile ''assets/fonts/Inter-Regular.ttf'',
              ReadFile ''assets/fonts/Inter-Regular.ttf'',
              Open (''assets/characters/'' @ imgSrc c),
              Open (border_path p c),
              Open ''assets/badges/level.png'']"
  proof -
    from runs_buildPortrait [of env "[]" ?p0 c] A
    have n: "first_error env (load_steps ?p0 c) = None"
      and l: "filter is_load (snd (buildPortrait env ?p0 c []))
                = map load_event (attempted env (load_steps ?p0 c))"
      by (auto simp add: runs_def split: option.splits)
    from n have "attempted env (load_steps ?p0 c) = load_steps ?p0 c"
      by (rule attempted_all)
    with l show ?thesis
      by (simp add: load_steps_def load_event_def border_path_def)
  qed
  show ?thesis
    apply (rule conjI [OF texts])
    apply (rule conjI [OF loads])
    apply (rule exI [of _ fs], rule exI [of _ zb], rule exI [of _ ?zp], rule exI [of _ oes])
    using a b l1 lgB zb oes frame regions fs
    apply (intro conjI)
         apply simp
        apply simp
       apply simp
      apply simp
     apply blast
    apply blast
    done
qed


theorem badge_layers_frame_witness:
  "\<exists>imgA imgB.
      fst (buildPortrait example_env
             \<lparr>Character = ''darth_vader'', GearLevel = 13, RelicLevel = 5, Zetas = 0, Omicrons = 0\<rparr>
             darth_vader []) = Inr imgA
    \<and> fst (buildPortrait example_env
             \<lparr>Character = ''darth_vader'', GearLevel = 13, RelicLevel = 5, Zetas = 1, Omicrons = 0\<rparr>
             darth_vader []) = Inr imgB
    \<and> Pix imgB 17 150 = Pix imgA 17 150
    \<and> Pix imgB 100 99 = Pix imgA 100 99"
proof -
  let ?p = "\<lparr>Character = ''darth_vader'', GearLevel = 13, RelicLevel = 5, Zetas = 1, Omicrons = 0\<rparr>"
  have p0: "?p\<lparr>Zetas := 0, Omicrons := 0\<rparr>
             = \<lparr>Character = ''darth_vader'', GearLevel = 13, RelicLevel = 5, Zetas = 0, Omicrons = 0\<rparr>"
    by simp
  obtain imgA where A: "fst (buildPortrait example_env (?p\<lparr>Zetas := 0, Omicrons := 0\<rparr>)
                              darth_vader []) = Inr imgA"
    using example_build_succeeds by blast
  obtain imgB where B: "fst (buildPortrait example_env ?p darth_vader []) = Inr imgB"
    using example_build_succeeds by blast
  have z: "0 < Zetas ?p"
    by simp
  from badge_layers_frame [OF z A B]
  obtain zp where f: "\<And>x y. \<not> touched (badge_events ''assets/badges/zeta.png'' (solid 100 100 White)
                                  (Pt 18 100) example_face zp (Itoa 1)) x y
                           \<Longrightarrow> Pix imgB x y = Pix imgA x y"
    by (auto simp add: example_font_of example_image_of)
  have "Pix imgB 17 150 = Pix imgA 17 150" and "Pix imgB 100 99 = Pix imgA 100 99"
    by (rule f; simp add: touched_def badge_events_def solid_def example_face_def Rect_Add_def
          Pt_Add_def Pt_In_def)+
  with A B show ?thesis
    unfolding p0 by blast
qed

text \<open>
  Claim C9. For any two successful builds, whatever the files, the character and the
  portrait's gear level, relic level, zetas and omicrons, the text drawn right after the
  level badge is the same string, \<open>85\<close>; the texts a build draws are \<open>85\<close>, then
  the zeta count when zetas is above 0, then the omicron count when omicrons is above 0.
\<close>

theorem level_text_fixed:
  assumes "fst (buildPortrait env p c []) = Inr img"
    and "fst (buildPortrait env' p' c' []) = Inr img'"
  shows "level_text (snd (buildPortrait env p c [])) = Some ''85''
       \<and> level_text (snd (buildPortrait env' p' c' [])) = level_text (snd (buildPortrait env p c []))
       \<and> drawn_texts (snd (buildPortrait env p c []))
           = ''85'' # (if Zetas p > 0 then [Itoa (Zetas p)] else [])
                    @ (if Omicrons p > 0 then [Itoa (Omicrons p)] else [])"
  using build_texts [OF assms(1)] build_texts [OF assms(2)] by simp

theorem level_text_fixed_witness:
  "level_text (snd (buildPortrait example_env
       \<lparr>Character = ''darth_vader'', GearLevel = 13, RelicLevel = 5, Zetas = 3, Omicrons = 1\<rparr>
       darth_vader [])) = Some ''85''
   \<and> level_text (snd (buildPortrait example_env
       \<lparr>Character = ''darth_vader'', GearLevel = 1, RelicLevel = 0, Zetas = 0, Omicrons = 0\<rparr>
       darth_vader [])) = Some ''85''
   \<and> drawn_texts (snd (buildPortrait example_env
       \<lparr>Character = ''darth_vader'', GearLevel = 13, RelicLevel = 5, Zetas = 3, Omicrons = 1\<rparr>
       darth_vader [])) = [''85'', ''3'', ''1'']"
proof -
  let ?p = "\<lparr>Character = ''darth_vader'', GearLevel = 13, RelicLevel = 5, Zetas = 3, Omicrons = 1\<rparr>"
  let ?q = "\<lparr>Character = ''darth_vader'', GearLevel = 1, RelicLevel = 0, Zetas = 0, Omicrons = 0\<rparr>"
  obtain img where h: "fst (buildPortrait example_env ?p darth_vader []) = Inr img"
    using example_build_succeeds by blast
  obtain img' where h': "fst (buildPortrait example_env ?q darth_vader []) = Inr img'"
    using example_build_succeeds by blast
  from level_text_fixed [OF h h'] show ?thesis
    by (simp add: Itoa_eval)
qed

end
